theory Spec2Isabelle
  imports Complex_Main "HOL-Library.Sublist"
begin

section \<open>Errors\<close>

text \<open>
  Every exception the modelled code can raise is a value of \<open>app_error\<close>; a fallible
  function returns \<open>app_error + 'a\<close> with \<open>Inl\<close> for the raised exception.
  \<open>ValueError\<close> carries its message; the application exceptions of
  \<^verbatim>\<open>app/core/errors.py\<close> carry the constructor arguments.
\<close>

datatype app_error =
    ValueError string
  | RepoNotFoundError string
  | RepoNotReadyError string string string
  | SessionNotFoundError string
  | ValidationError
  | AttributeError

section \<open>Repository lifecycle (app/models/repository.py, app/services/lifecycle.py)\<close>

datatype RepoStatus = CREATED | CLONED | STRUCTURED | INDEXED | DOCS_GENERATED | READY | FAILED

text \<open>The \<open>value\<close> of each enumeration member: the string stored in the status column.\<close>

fun status_value :: "RepoStatus \<Rightarrow> string" where
  "status_value CREATED = ''CREATED''"
| "status_value CLONED = ''CLONED''"
| "status_value STRUCTURED = ''STRUCTURED''"
| "status_value INDEXED = ''INDEXED''"
| "status_value DOCS_GENERATED = ''DOCS_GENERATED''"
| "status_value READY = ''READY''"
| "status_value FAILED = ''FAILED''"

fun VALID_TRANSITIONS :: "RepoStatus \<Rightarrow> RepoStatus list" where
  "VALID_TRANSITIONS CREATED = [CLONED, FAILED]"
| "VALID_TRANSITIONS CLONED = [STRUCTURED, FAILED]"
| "VALID_TRANSITIONS STRUCTURED = [INDEXED, FAILED]"
| "VALID_TRANSITIONS INDEXED = [DOCS_GENERATED, FAILED]"
| "VALID_TRANSITIONS DOCS_GENERATED = [READY, FAILED]"
| "VALID_TRANSITIONS READY = [FAILED]"
| "VALID_TRANSITIONS FAILED = [CREATED]"

text \<open>The dictionary \<open>API_STATE_REQUIREMENTS\<close>, as a map from operation names.\<close>

definition API_STATE_REQUIREMENTS :: "string \<rightharpoonup> RepoStatus" where
  "API_STATE_REQUIREMENTS = map_of
     [(''summary'', STRUCTURED),
      (''structure'', STRUCTURED),
      (''entrypoints'', STRUCTURED),
      (''index'', STRUCTURED),
      (''search'', INDEXED),
      (''session'', INDEXED),
      (''ask'', INDEXED),
      (''docs_readme'', DOCS_GENERATED),
      (''docs_architecture'', DOCS_GENERATED)]"

fun state_order :: "RepoStatus \<Rightarrow> int" where
  "state_order CREATED = 0"
| "state_order CLONED = 1"
| "state_order STRUCTURED = 2"
| "state_order INDEXED = 3"
| "state_order DOCS_GENERATED = 4"
| "state_order READY = 5"
| "state_order FAILED = - 1"

text \<open>
  The columns of a repository row that the modelled functions read or write. The status
  column holds the value of a \<open>RepoStatus\<close> member, so the field has that type.
\<close>

record Repository =
  repo_id :: string
  repo_name :: string
  repo_owner :: string
  primary_language :: "string option"
  status :: RepoStatus
  error_message :: "string option"
  total_files :: "int option"
  total_chunks :: "int option"

definition can_transition_to :: "Repository \<Rightarrow> RepoStatus \<Rightarrow> bool" where
  "can_transition_to repo new_status = (new_status \<in> set (VALID_TRANSITIONS (status repo)))"

definition has_reached_state :: "Repository \<Rightarrow> RepoStatus \<Rightarrow> bool" where
  "has_reached_state repo required_state =
     (if status repo = FAILED then False
      else state_order (status repo) \<ge> state_order required_state)"

text \<open>Python truthiness of an optional string: neither \<open>None\<close> nor the empty string.\<close>

fun truthy :: "string option \<Rightarrow> bool" where
  "truthy None = False"
| "truthy (Some s) = (s \<noteq> [])"

text \<open>The method \<open>Repository.check_api_readiness\<close>: a pair of a flag and a message.\<close>

definition repo_check_api_readiness :: "Repository \<Rightarrow> string \<Rightarrow> bool \<times> string option" where
  "repo_check_api_readiness repo operation =
     (case API_STATE_REQUIREMENTS operation of
        None \<Rightarrow> (True, None)
      | Some required \<Rightarrow>
          if status repo = FAILED then
            (False, Some (''Repository is in FAILED state: '' @
               (case error_message repo of None \<Rightarrow> ''None'' | Some m \<Rightarrow> m)))
          else if \<not> has_reached_state repo required then
            (False, Some (''Repository must be in '' @ status_value required @
               '' state or later. Current: '' @ status_value (status repo)))
          else (True, None))"

text \<open>
  \<open>transition_status\<close> mutates the repository object it is given. The model returns the
  outcome of the call together with the object as it is after the call: the raised error
  and the untouched object, or the returned object (which is the mutated one). The
  logging calls have no effect on the modelled state.
\<close>

definition transition_status ::
  "Repository \<Rightarrow> RepoStatus \<Rightarrow> string option \<Rightarrow> (app_error + Repository) \<times> Repository" where
  "transition_status repo new_status msg =
     (if \<not> can_transition_to repo new_status then
        (Inl (ValueError (''Invalid transition from '' @ status_value (status repo) @
                '' to '' @ status_value new_status)), repo)
      else
        let repo1 = repo\<lparr>status := new_status\<rparr>;
            repo2 = (if new_status = FAILED \<and> truthy msg then repo1\<lparr>error_message := msg\<rparr>
                     else repo1)
        in (Inr repo2, repo2))"

definition mark_failed :: "Repository \<Rightarrow> string \<Rightarrow> (app_error + Repository) \<times> Repository" where
  "mark_failed repo msg = transition_status repo FAILED (Some msg)"

text \<open>
  The reset branch of \<open>ingest_repository\<close> (an existing repository, \<open>force\<close> set): the
  row goes back to \<open>CREATED\<close> and its error message is cleared.
\<close>

definition ingest_reset_existing :: "Repository \<Rightarrow> Repository" where
  "ingest_reset_existing existing = existing\<lparr>status := CREATED, error_message := None\<rparr>"

text \<open>
  The service functions \<open>get_repository\<close> and \<open>check_api_readiness\<close> read the
  repositories table, a map from the primary key to the row.
\<close>

definition get_repository :: "(string \<rightharpoonup> Repository) \<Rightarrow> string \<Rightarrow> app_error + Repository" where
  "get_repository repos rid =
     (case repos rid of None \<Rightarrow> Inl (RepoNotFoundError rid) | Some repo \<Rightarrow> Inr repo)"

definition check_api_readiness ::
  "(string \<rightharpoonup> Repository) \<Rightarrow> string \<Rightarrow> string \<Rightarrow> app_error + Repository" where
  "check_api_readiness repos rid operation =
     (case get_repository repos rid of
        Inl e \<Rightarrow> Inl e
      | Inr repo \<Rightarrow>
          if \<not> fst (repo_check_api_readiness repo operation) then
            Inl (RepoNotReadyError rid (status_value (status repo))
                   (status_value (case API_STATE_REQUIREMENTS operation of
                                    None \<Rightarrow> CREATED | Some r \<Rightarrow> r)))
          else Inr repo)"

text \<open>
  The error-message invariant of the data model: the message is non-empty only when the
  status is \<open>FAILED\<close>.
\<close>

definition message_invariant :: "Repository \<Rightarrow> bool" where
  "message_invariant repo = (if truthy (error_message repo) then status repo = FAILED else True)"

text \<open>Running a sequence of transitions on one repository object, ignoring refused ones.\<close>

fun run_transitions :: "Repository \<Rightarrow> (RepoStatus \<times> string option) list \<Rightarrow> Repository" where
  "run_transitions repo [] = repo"
| "run_transitions repo ((s, m) # rest) = run_transitions (snd (transition_status repo s m)) rest"

section \<open>Jobs (app/models/job.py, app/services/jobs.py)\<close>

datatype JobStatus = PENDING | RUNNING | COMPLETED | JOB_FAILED

record Job =
  job_id :: string
  job_repo_id :: string
  job_status :: JobStatus
  progress :: int
  job_error_message :: "string option"

definition update_progress :: "Job \<Rightarrow> int \<Rightarrow> Job" where
  "update_progress job p = job\<lparr>progress := min (max p 0) 100\<rparr>"

definition start_job :: "Job \<Rightarrow> Job" where
  "start_job job = job\<lparr>job_status := RUNNING\<rparr>"

definition complete_job :: "Job \<Rightarrow> Job" where
  "complete_job job = job\<lparr>job_status := COMPLETED, progress := 100\<rparr>"

definition fail_job :: "Job \<Rightarrow> string \<Rightarrow> Job" where
  "fail_job job msg = job\<lparr>job_status := JOB_FAILED, job_error_message := Some msg\<rparr>"

section \<open>Settings (app/config.py)\<close>

text \<open>
  The settings object is loaded once from the environment; the modelled functions read
  these fields of it. \<open>default_settings\<close> holds the defaults of the class.
\<close>

record Settings =
  max_file_size_mb :: int
  similarity_threshold :: real
  max_conversation_tokens :: int
  max_conversation_history :: int
  session_ttl_hours :: int

definition default_settings :: Settings where
  "default_settings = \<lparr>max_file_size_mb = 2, similarity_threshold = 65 / 100,
     max_conversation_tokens = 500, max_conversation_history = 5, session_ttl_hours = 24\<rparr>"

section \<open>Strings as Python has them\<close>

text \<open>
  A character of the model is a byte. \<open>is_space\<close> is \<open>str.isspace\<close> on the ASCII
  range (tab, line feed, vertical tab, form feed, carriage return, the four separators
  0x1C to 0x1F, and space); it is also what \<open>\s\<close> matches there. \<open>is_word_char\<close> is
  what \<open>\w\<close> matches on the ASCII range.
\<close>

definition is_space :: "char \<Rightarrow> bool" where
  "is_space c = (c \<in> set [CHR 0x09, CHR 0x0A, CHR 0x0B, CHR 0x0C, CHR 0x0D,
                            CHR 0x1C, CHR 0x1D, CHR 0x1E, CHR 0x1F, CHR 0x20])"

definition is_word_char :: "char \<Rightarrow> bool" where
  "is_word_char c =
     (let k = (of_char c :: nat) in
      (48 \<le> k \<and> k \<le> 57) \<or> (65 \<le> k \<and> k \<le> 90) \<or> (97 \<le> k \<and> k \<le> 122) \<or> k = 95)"

definition lstrip :: "string \<Rightarrow> string" where
  "lstrip s = dropWhile is_space s"

definition strip :: "string \<Rightarrow> string" where
  "strip s = rev (dropWhile is_space (rev (dropWhile is_space s)))"

definition lower_char :: "char \<Rightarrow> char" where
  "lower_char c =
     (let k = (of_char c :: nat) in if 65 \<le> k \<and> k \<le> 90 then char_of (k + 32) else c)"

definition lower :: "string \<Rightarrow> string" where
  "lower s = map lower_char s"

fun starts_with :: "string \<Rightarrow> string \<Rightarrow> bool" where
  "starts_with [] s = True"
| "starts_with (p # ps) [] = False"
| "starts_with (p # ps) (c # cs) = (p = c \<and> starts_with ps cs)"

definition ends_with :: "string \<Rightarrow> string \<Rightarrow> bool" where
  "ends_with p s = starts_with (rev p) (rev s)"

fun contains :: "string \<Rightarrow> string \<Rightarrow> bool" where
  "contains p [] = (p = [])"
| "contains p (c # cs) = (starts_with p (c # cs) \<or> contains p cs)"

text \<open>\<open>str.split()\<close> without arguments: the maximal runs of non-whitespace characters.\<close>

fun words_from :: "string \<Rightarrow> string \<Rightarrow> string list" where
  "words_from w [] = (if w = [] then [] else [w])"
| "words_from w (c # cs) =
     (if is_space c then (if w = [] then words_from [] cs else w # words_from [] cs)
      else words_from (w @ [c]) cs)"

definition split_whitespace :: "string \<Rightarrow> string list" where
  "split_whitespace s = words_from [] s"

text \<open>\<open>content.split("\n")\<close>: never the empty list.\<close>

fun split_lines :: "string \<Rightarrow> string list" where
  "split_lines [] = [[]]"
| "split_lines (c # cs) =
     (if c = CHR 0x0A then [] # split_lines cs
      else (case split_lines cs of [] \<Rightarrow> [[c]] | l # ls \<Rightarrow> (c # l) # ls))"

text \<open>\<open>"\n".join(lines)\<close>.\<close>

fun join_lines :: "string list \<Rightarrow> string" where
  "join_lines [] = []"
| "join_lines [l] = l"
| "join_lines (l # ls) = l @ CHR 0x0A # join_lines ls"

text \<open>
  \<open>count_tokens\<close> of app/core/llm.py: \<open>int(len(text.split()) * 1.3)\<close>. The product is
  a double; for every word count below \<open>10^15\<close> its integer part is the integer part of
  thirteen tenths of the count, which is what the model computes.
\<close>

definition count_tokens :: "string \<Rightarrow> int" where
  "count_tokens text = (int (length (split_whitespace text)) * 13) div 10"

section \<open>Chunking (app/core/chunking.py)\<close>

record CodeChunk =
  file_path :: string
  start_line :: int
  end_line :: int
  content :: string
  language :: "string option"
  symbol_type :: "string option"
  symbol_name :: "string option"
  token_count :: "int option"

definition LANGUAGE_MAP :: "string \<rightharpoonup> string" where
  "LANGUAGE_MAP = map_of
     [(''.py'', ''python''), (''.js'', ''javascript''), (''.ts'', ''typescript''),
      (''.jsx'', ''javascript''), (''.tsx'', ''typescript''), (''.go'', ''go''),
      (''.rs'', ''rust''), (''.java'', ''java''), (''.rb'', ''ruby''), (''.php'', ''php''),
      (''.c'', ''c''), (''.cpp'', ''cpp''), (''.h'', ''c''), (''.hpp'', ''cpp''),
      (''.cs'', ''csharp''), (''.swift'', ''swift''), (''.kt'', ''kotlin''),
      (''.scala'', ''scala''), (''.r'', ''r''), (''.R'', ''r''), (''.sql'', ''sql''),
      (''.sh'', ''bash''), (''.bash'', ''bash''), (''.zsh'', ''zsh''), (''.yaml'', ''yaml''),
      (''.yml'', ''yaml''), (''.json'', ''json''), (''.xml'', ''xml''), (''.html'', ''html''),
      (''.css'', ''css''), (''.md'', ''markdown''), (''.txt'', ''text'')]"

text \<open>
  The entries of \<open>SKIP_PATTERNS\<close> are literal texts, some anchored with \<open>$\<close>.
  \<open>re.search\<close> of an unanchored one finds the text anywhere; \<open>$\<close> matches at the end
  of the path and before a line feed that ends it.
\<close>

datatype skip_pattern = Anywhere string | AtEnd string

definition SKIP_PATTERNS :: "skip_pattern list" where
  "SKIP_PATTERNS =
     [Anywhere ''.git/'', Anywhere ''node_modules/'', Anywhere ''__pycache__/'',
      AtEnd ''.pyc'', AtEnd ''.pyo'', Anywhere ''.egg-info/'', AtEnd ''.so'', AtEnd ''.dll'',
      AtEnd ''.exe'', AtEnd ''.bin'', AtEnd ''.lock'', AtEnd ''package-lock.json'',
      AtEnd ''yarn.lock'', AtEnd ''.min.js'', AtEnd ''.min.css'', AtEnd ''.map'',
      AtEnd ''.whl'', AtEnd ''.tar.gz'', AtEnd ''.zip'', AtEnd ''.png'', AtEnd ''.jpg'',
      AtEnd ''.jpeg'', AtEnd ''.gif'', AtEnd ''.ico'', AtEnd ''.svg'', AtEnd ''.pdf'',
      Anywhere ''.woff'', AtEnd ''.ttf'']"

fun re_search :: "skip_pattern \<Rightarrow> string \<Rightarrow> bool" where
  "re_search (Anywhere p) s = contains p s"
| "re_search (AtEnd p) s = (ends_with p s \<or> ends_with (p @ [CHR 0x0A]) s)"

definition should_skip_file :: "string \<Rightarrow> bool" where
  "should_skip_file path_str = list_ex (\<lambda>pattern. re_search pattern path_str) SKIP_PATTERNS"

text \<open>
  A path is its text, in normal form. \<open>path_name\<close> is the last_line component and
  \<open>path_suffix\<close> is \<open>Path.suffix\<close>: the part of the name from its last_line dot on, when
  that dot is neither the first_line nor the last_line character of the name.
\<close>

definition path_name :: "string \<Rightarrow> string" where
  "path_name p = rev (takeWhile (\<lambda>c. c \<noteq> CHR ''/'') (rev p))"

definition path_suffix :: "string \<Rightarrow> string" where
  "path_suffix p =
     (let name = path_name p;
          ext = rev (takeWhile (\<lambda>c. c \<noteq> CHR ''.'') (rev name))
      in if CHR ''.'' \<notin> set name \<or> length ext + 1 = length name \<or> ext = [] then []
         else CHR ''.'' # ext)"

definition detect_language :: "string \<Rightarrow> string option" where
  "detect_language p = LANGUAGE_MAP (lower (path_suffix p))"

text \<open>
  \<open>read_file_safe\<close> over a file system that maps a path to the bytes of the file; a
  path without an entry is one whose \<open>stat\<close> or read raises \<open>OSError\<close>. Decoding
  (UTF-8, then Latin-1, which accepts every byte) leaves the bytes as they are in this
  model.
\<close>

definition read_file_safe :: "Settings \<Rightarrow> (string \<rightharpoonup> string) \<Rightarrow> string \<Rightarrow> string option" where
  "read_file_safe settings fs p =
     (case fs p of
        None \<Rightarrow> None
      | Some bytes \<Rightarrow>
          if int (length bytes) > max_file_size_mb settings * 1024 * 1024 then None
          else Some bytes)"

text \<open>
  The inner loop of \<open>sliding_window_chunk\<close> that collects the overlap: it walks the
  lines of the chunk just emitted from the last_line one backwards and stops at the first_line line
  that would exceed the overlap budget. The second argument is the reversed chunk.
\<close>

fun overlap_loop :: "int \<Rightarrow> string list \<Rightarrow> string list \<Rightarrow> int \<Rightarrow> string list \<times> int" where
  "overlap_loop overlap_tokens [] overlap_lines overlap_tokens_count =
     (overlap_lines, overlap_tokens_count)"
| "overlap_loop overlap_tokens (prev_line # rest) overlap_lines overlap_tokens_count =
     (let prev_tokens = count_tokens prev_line in
      if overlap_tokens_count + prev_tokens > overlap_tokens
      then (overlap_lines, overlap_tokens_count)
      else overlap_loop overlap_tokens rest (prev_line # overlap_lines)
             (overlap_tokens_count + prev_tokens))"

definition take_overlap :: "int \<Rightarrow> string list \<Rightarrow> string list \<times> int" where
  "take_overlap overlap_tokens current_chunk_lines =
     overlap_loop overlap_tokens (rev current_chunk_lines) [] 0"

definition window_chunk ::
  "string \<Rightarrow> string option \<Rightarrow> int \<Rightarrow> int \<Rightarrow> string list \<Rightarrow> int \<Rightarrow> CodeChunk" where
  "window_chunk fp lang first_line last_line chunk_lines tokens =
     \<lparr>file_path = fp, start_line = first_line, end_line = last_line, content = join_lines chunk_lines,
      language = lang, symbol_type = None, symbol_name = None, token_count = Some tokens\<rparr>"

text \<open>
  The main loop of \<open>sliding_window_chunk\<close> over the lines still to read. \<open>n\<close> is
  \<open>len(lines)\<close>, \<open>i\<close> the number of the line at the head of the list, and
  \<open>cur\<close>, \<open>first_line\<close>, \<open>tokens\<close> are \<open>current_chunk_lines\<close>,
  \<open>current_start_line\<close>, \<open>current_tokens\<close>. The result is the list of the chunks
  the generator yields, in order.
\<close>

fun sliding_loop ::
  "string \<Rightarrow> string option \<Rightarrow> int \<Rightarrow> int \<Rightarrow> int \<Rightarrow> int \<Rightarrow> string list \<Rightarrow> int \<Rightarrow> int \<Rightarrow>
   string list \<Rightarrow> CodeChunk list" where
  "sliding_loop fp lang max_tokens overlap_tokens n i cur first_line tokens [] =
     (if cur \<noteq> [] then [window_chunk fp lang first_line n cur tokens] else [])"
| "sliding_loop fp lang max_tokens overlap_tokens n i cur first_line tokens (line # rest) =
     (let line_tokens = count_tokens line in
      if tokens + line_tokens > max_tokens \<and> cur \<noteq> [] then
        (case take_overlap overlap_tokens cur of
           (overlap_lines, overlap_tokens_count) \<Rightarrow>
             window_chunk fp lang first_line (i - 1) cur tokens #
             sliding_loop fp lang max_tokens overlap_tokens n (i + 1)
               (overlap_lines @ [line]) (i - int (length overlap_lines))
               (overlap_tokens_count + line_tokens) rest)
      else sliding_loop fp lang max_tokens overlap_tokens n (i + 1)
             (cur @ [line]) first_line (tokens + line_tokens) rest)"

definition sliding_window_chunk ::
  "string \<Rightarrow> string \<Rightarrow> string option \<Rightarrow> int \<Rightarrow> int \<Rightarrow> CodeChunk list" where
  "sliding_window_chunk text fp lang max_tokens overlap_tokens =
     (let lines = split_lines text in
      if lines = [] then []
      else sliding_loop fp lang max_tokens overlap_tokens (int (length lines)) 1 [] 1 0 lines)"

text \<open>
  The two patterns of \<open>extract_python_symbols\<close>, matched at the start of the stripped
  line: \<open>^class\s+(\w+)\<close> and \<open>^(?:async\s+)?def\s+(\w+)\<close>. The result is the
  captured name. \<open>spaces_then_name\<close> is the common tail \<open>\s+(\w+)\<close>.
\<close>

definition spaces_then_name :: "string \<Rightarrow> string option" where
  "spaces_then_name r =
     (case r of
        [] \<Rightarrow> None
      | c # _ \<Rightarrow>
          if \<not> is_space c then None
          else (let name = takeWhile is_word_char (dropWhile is_space r)
                in if name = [] then None else Some name))"

definition class_pattern_match :: "string \<Rightarrow> string option" where
  "class_pattern_match s =
     (if starts_with ''class'' s then spaces_then_name (drop 5 s) else None)"

definition def_match :: "string \<Rightarrow> string option" where
  "def_match s = (if starts_with ''def'' s then spaces_then_name (drop 3 s) else None)"

definition func_pattern_match :: "string \<Rightarrow> string option" where
  "func_pattern_match s =
     (if starts_with ''async'' s then
        (case drop 5 s of
           [] \<Rightarrow> None
         | c # _ \<Rightarrow> if is_space c then def_match (dropWhile is_space (drop 5 s)) else None)
      else def_match s)"

text \<open>The current symbol: its type, its name and the line it starts at.\<close>

type_synonym symbol = "string \<times> string \<times> int"

definition symbol_chunk :: "string \<Rightarrow> symbol \<Rightarrow> int \<Rightarrow> string list \<Rightarrow> CodeChunk" where
  "symbol_chunk fp symb last_line current_lines =
     (case symb of (ty, name, first_line) \<Rightarrow>
        \<lparr>file_path = fp, start_line = first_line, end_line = last_line,
         content = join_lines current_lines, language = Some ''python'',
         symbol_type = Some ty, symbol_name = Some name,
         token_count = Some (count_tokens (join_lines current_lines))\<rparr>)"

text \<open>
  The loop of \<open>extract_python_symbols\<close> over the lines still to read, with the state
  \<open>current_symbol\<close>, \<open>current_lines\<close>, \<open>current_indent\<close>.
\<close>

fun symbols_loop ::
  "string \<Rightarrow> int \<Rightarrow> int \<Rightarrow> symbol option \<Rightarrow> string list \<Rightarrow> int \<Rightarrow> string list \<Rightarrow> CodeChunk list" where
  "symbols_loop fp n i current_symbol current_lines current_indent [] =
     (case current_symbol of
        None \<Rightarrow> []
      | Some symb \<Rightarrow> if current_lines \<noteq> [] then [symbol_chunk fp symb n current_lines] else [])"
| "symbols_loop fp n i current_symbol current_lines current_indent (line # rest) =
     (let stripped = lstrip line;
          indent = int (length line) - int (length stripped);
          class_match = class_pattern_match stripped;
          func_match = func_pattern_match stripped
      in
      if class_match \<noteq> None \<or> func_match \<noteq> None then
        (case current_symbol of
           None \<Rightarrow> []
         | Some symb \<Rightarrow>
             if current_lines \<noteq> [] then [symbol_chunk fp symb (i - 1) current_lines] else [])
        @ symbols_loop fp n (i + 1)
            (Some (case class_match of
                     Some name \<Rightarrow> (''class'', name, i)
                   | None \<Rightarrow> (''function'', the func_match, i)))
            [line] indent rest
      else
        (case current_symbol of
           None \<Rightarrow> symbols_loop fp n (i + 1) None current_lines current_indent rest
         | Some symb \<Rightarrow>
             if stripped = [] \<or> indent > current_indent then
               symbols_loop fp n (i + 1) current_symbol (current_lines @ [line])
                 current_indent rest
             else if indent = current_indent then
               symbols_loop fp n (i + 1) current_symbol (current_lines @ [line])
                 current_indent rest
             else
               symbol_chunk fp symb (i - 1) current_lines #
               symbols_loop fp n (i + 1) None [] current_indent rest))"

definition extract_python_symbols :: "string \<Rightarrow> string \<Rightarrow> CodeChunk list" where
  "extract_python_symbols text fp =
     (let lines = split_lines text
      in symbols_loop fp (int (length lines)) 1 None [] 0 lines)"

text \<open>
  \<open>file_path.relative_to(base_path)\<close> on path texts: the part after the base and a
  slash; \<open>ValueError\<close> when the path is not below the base.
\<close>

definition relative_to :: "string \<Rightarrow> string \<Rightarrow> app_error + string" where
  "relative_to p base =
     (if p = base then Inr ''.''
      else if starts_with (base @ ''/'') p then Inr (drop (length base + 1) p)
      else Inl (ValueError ''path is not in the subpath of the base''))"

definition chunk_file ::
  "Settings \<Rightarrow> (string \<rightharpoonup> string) \<Rightarrow> string \<Rightarrow> string \<Rightarrow> app_error + CodeChunk list" where
  "chunk_file settings fs p base_path =
     (if should_skip_file p then Inr []
      else
        (case read_file_safe settings fs p of
           None \<Rightarrow> Inr []
         | Some text \<Rightarrow>
             if text = [] then Inr []
             else if length (strip text) < 50 then Inr []
             else
               (case relative_to p base_path of
                  Inl e \<Rightarrow> Inl e
                | Inr relative_path \<Rightarrow>
                    (let lang = detect_language p;
                         chunks = (if lang = Some ''python''
                                   then extract_python_symbols text relative_path else [])
                     in if chunks \<noteq> [] then Inr chunks
                        else Inr (sliding_window_chunk text relative_path lang 1500 200)))))"

text \<open>
  The notions the coverage properties are stated with: the lines of the file a chunk
  stands for, whether a line number lies in the range of some chunk, the rule that links
  the start of a chunk to the end of the one before it, and the part of each chunk that
  does not repeat lines of the one before it.
\<close>

definition chunk_range_lines :: "string list \<Rightarrow> CodeChunk \<Rightarrow> string list" where
  "chunk_range_lines lines c =
     take (nat (end_line c - start_line c + 1)) (drop (nat (start_line c - 1)) lines)"

definition in_range :: "CodeChunk \<Rightarrow> int \<Rightarrow> bool" where
  "in_range c k = (start_line c \<le> k \<and> k \<le> end_line c)"

definition line_covered :: "CodeChunk list \<Rightarrow> int \<Rightarrow> bool" where
  "line_covered chunks k = list_ex (\<lambda>c. in_range c k) chunks"

fun continuity :: "int \<Rightarrow> string list \<Rightarrow> CodeChunk list \<Rightarrow> bool" where
  "continuity overlap_tokens lines (prev # next # rest) =
     (start_line next =
        end_line prev - int (length (fst (take_overlap overlap_tokens (chunk_range_lines lines prev)))) + 1
      \<and> continuity overlap_tokens lines (next # rest))"
| "continuity overlap_tokens lines [c] = True"
| "continuity overlap_tokens lines [] = True"

fun unique_spans :: "int \<Rightarrow> CodeChunk list \<Rightarrow> int list list" where
  "unique_spans prev_end [] = []"
| "unique_spans prev_end (c # rest) =
     [max (start_line c) (prev_end + 1) .. end_line c] # unique_spans (end_line c) rest"

section \<open>External capabilities\<close>

text \<open>
  The FAISS flat inner-product index: its dimension and the vectors added to it, in the
  order of insertion. The position of a vector is its slot.
\<close>

record 'v IndexFlatIP =
  index_dimension :: nat
  index_vectors :: "'v list"

definition ntotal :: "'v IndexFlatIP \<Rightarrow> nat" where
  "ntotal ix = length (index_vectors ix)"

record ChatMessage =
  msg_role :: string
  msg_content :: string

record CodeReference =
  ref_file :: string
  ref_symbol :: "string option"
  ref_lines :: string
  ref_content :: "string option"

text \<open>
  What \<open>json.loads\<close> makes of the text of a completion, as far as \<open>ask_question\<close>
  looks at it: the text is not JSON (\<open>JSONDecodeError\<close>, which the function catches),
  it is JSON but not an object (the call of \<open>get\<close> raises \<open>AttributeError\<close>, which the
  function does not catch), or it is an object, of which the keys read by the function
  are kept, each absent or present.
\<close>

record ReferencePayload =
  payload_file :: "string option"
  payload_lines :: "string option"
  payload_symbol :: "string option"

record AnswerPayload =
  payload_answer :: "string option"
  payload_references :: "ReferencePayload list option"
  payload_confidence :: "real option"
  payload_answered :: "bool option"

datatype llm_json = JSONDecodeError | NotAnObject | JsonObject AnswerPayload

text \<open>
  The code of other libraries and services that the modelled functions call, as
  parameters: the embedding model, FAISS (normalisation, inner product, and the file
  format of an index, where \<open>None\<close> stands for a raised exception), the JSON codec for the
  id map and for the references of a message, \<open>fnmatch\<close>, the completion service and the
  parser of its answer. The text of the constant \<open>TUTOR_SYSTEM_PROMPT\<close> is a parameter
  as well.
\<close>

record 'v externals =
  generate_embedding :: "string \<Rightarrow> 'v"
  normalize_L2 :: "'v \<Rightarrow> 'v"
  inner_product :: "'v \<Rightarrow> 'v \<Rightarrow> real"
  write_index :: "'v IndexFlatIP \<Rightarrow> string"
  read_index :: "string \<Rightarrow> 'v IndexFlatIP option"
  json_dump_ids :: "string list \<Rightarrow> string"
  json_load_ids :: "string \<Rightarrow> string list option"
  fnmatch :: "string \<Rightarrow> string \<Rightarrow> bool"
  generate_chat_completion :: "ChatMessage list \<Rightarrow> string"
  json_loads :: "string \<Rightarrow> llm_json"
  json_dumps_refs :: "CodeReference list \<Rightarrow> string"
  TUTOR_SYSTEM_PROMPT :: string

section \<open>Vector store (app/core/vector_store.py)\<close>

text \<open>
  \<open>index.search(query, k)\<close> of a flat inner-product index: the scores of all vectors
  against the query, the \<open>k\<close> best in descending order of score, each with its slot.
  Vectors of equal score are kept in the order of their slots. The function is only
  called with \<open>k\<close> at most \<open>ntotal\<close>, where FAISS returns \<open>k\<close> real slots.
\<close>

definition faiss_search ::
  "('v \<Rightarrow> 'v \<Rightarrow> real) \<Rightarrow> 'v IndexFlatIP \<Rightarrow> 'v \<Rightarrow> nat \<Rightarrow> (real \<times> int) list" where
  "faiss_search ip ix query k =
     take k (sort_key (\<lambda>(score, idx). - score)
               (zip (map (ip query) (index_vectors ix)) (map int [0..<ntotal ix])))"

record VectorHit =
  hit_index :: int
  hit_score :: real

record 'v VectorStore =
  vs_repo_id :: string
  vs_dimension :: nat
  vs_index :: "'v IndexFlatIP option"
  id_map :: "string list"

definition EMBEDDING_DIM :: nat where
  "EMBEDDING_DIM = 384"

definition new_vector_store :: "string \<Rightarrow> 'v VectorStore" where
  "new_vector_store rid =
     \<lparr>vs_repo_id = rid, vs_dimension = EMBEDDING_DIM, vs_index = None, id_map = []\<rparr>"

definition index_path :: "string \<Rightarrow> string" where
  "index_path rid = ''data/indexes/'' @ rid @ ''/index.faiss''"

definition map_path :: "string \<Rightarrow> string" where
  "map_path rid = ''data/indexes/'' @ rid @ ''/id_map.json''"

definition create_index :: "'v VectorStore \<Rightarrow> 'v VectorStore" where
  "create_index vs =
     vs\<lparr>vs_index := Some \<lparr>index_dimension = vs_dimension vs, index_vectors = []\<rparr>,
        id_map := []\<rparr>"

definition add_embeddings ::
  "'v externals \<Rightarrow> 'v VectorStore \<Rightarrow> 'v list \<Rightarrow> string list \<Rightarrow> 'v VectorStore" where
  "add_embeddings ext vs embeddings chunk_ids =
     (let vs1 = (if vs_index vs = None then create_index vs else vs)
      in vs1\<lparr>vs_index :=
               map_option
                 (\<lambda>ix. ix\<lparr>index_vectors := index_vectors ix @ map (normalize_L2 ext) embeddings\<rparr>)
                 (vs_index vs1),
             id_map := id_map vs1 @ chunk_ids\<rparr>)"

definition vector_search ::
  "'v externals \<Rightarrow> 'v VectorStore \<Rightarrow> 'v \<Rightarrow> nat \<Rightarrow> real \<Rightarrow> VectorHit list" where
  "vector_search ext vs query_embedding top_k threshold =
     (case vs_index vs of
        None \<Rightarrow> []
      | Some ix \<Rightarrow>
          if ntotal ix = 0 then []
          else
            (let query = normalize_L2 ext query_embedding;
                 found = faiss_search (inner_product ext) ix query (min top_k (ntotal ix))
             in map (\<lambda>(score, idx). \<lparr>hit_index = idx, hit_score = score\<rparr>)
                  (filter (\<lambda>(score, idx). idx \<ge> 0 \<and> score \<ge> threshold) found)))"

definition get_chunk_id :: "'v VectorStore \<Rightarrow> int \<Rightarrow> string option" where
  "get_chunk_id vs idx =
     (if 0 \<le> idx \<and> idx < int (length (id_map vs)) then Some (id_map vs ! nat idx) else None)"

text \<open>
  \<open>save\<close> and \<open>load\<close> act on the disk, a map from a path to the bytes of the file.
  \<open>load\<close> returns its flag and the store object after the call: a failure of the
  second read leaves the index that the first read has already assigned.
\<close>

definition save ::
  "'v externals \<Rightarrow> 'v VectorStore \<Rightarrow> (string \<rightharpoonup> string) \<Rightarrow> (string \<rightharpoonup> string)" where
  "save ext vs files =
     (case vs_index vs of
        None \<Rightarrow> files
      | Some ix \<Rightarrow>
          (files(index_path (vs_repo_id vs) \<mapsto> write_index ext ix))
            (map_path (vs_repo_id vs) \<mapsto> json_dump_ids ext (id_map vs)))"

definition load ::
  "'v externals \<Rightarrow> 'v VectorStore \<Rightarrow> (string \<rightharpoonup> string) \<Rightarrow> bool \<times> 'v VectorStore" where
  "load ext vs files =
     (case files (index_path (vs_repo_id vs)) of
        None \<Rightarrow> (False, vs)
      | Some index_bytes \<Rightarrow>
          (case files (map_path (vs_repo_id vs)) of
             None \<Rightarrow> (False, vs)
           | Some map_bytes \<Rightarrow>
               (case read_index ext index_bytes of
                  None \<Rightarrow> (False, vs)
                | Some ix \<Rightarrow>
                    (case json_load_ids ext map_bytes of
                       None \<Rightarrow> (False, vs\<lparr>vs_index := Some ix\<rparr>)
                     | Some ids \<Rightarrow> (True, vs\<lparr>vs_index := Some ix, id_map := ids\<rparr>)))))"

section \<open>The stored state\<close>

record ChunkRow =
  row_id :: string
  row_repo_id :: string
  row_file_path :: string
  row_start_line :: int
  row_end_line :: int
  row_symbol_type :: "string option"
  row_symbol_name :: "string option"
  row_language :: "string option"
  row_content :: string
  row_embedding_index :: "int option"

text \<open>Times are counted in microseconds.\<close>

record TutorSession =
  ts_id :: string
  ts_repo_id :: string
  repo_context_summary :: "string option"
  rolling_conversation_summary :: "string option"
  last_activity_at :: int

record TutorMessage =
  tm_session_id :: string
  tm_role :: string
  tm_content :: string
  tm_references :: "string option"

text \<open>
  The tables of the database (each a map from the primary key, the messages a list in
  the order of their creation), the files of the index directory, and the list of the
  calls made to the completion service so far.
\<close>

record World =
  repositories :: "string \<rightharpoonup> Repository"
  code_chunks :: "string \<rightharpoonup> ChunkRow"
  tutor_sessions :: "string \<rightharpoonup> TutorSession"
  tutor_messages :: "TutorMessage list"
  disk :: "string \<rightharpoonup> string"
  completion_calls :: "ChatMessage list list"

section \<open>Search (app/services/search.py)\<close>

record SearchResult =
  sr_file_path :: string
  sr_symbol :: "string option"
  sr_symbol_type :: "string option"
  sr_start_line :: int
  sr_end_line :: int
  sr_content :: string
  sr_score :: real
  sr_language :: "string option"

text \<open>
  The loop of \<open>search_code\<close> that builds the results from the hits. The schema
  \<open>SearchResult\<close> accepts a score between 0 and 1 only; another score raises the
  validation error of the schema.
\<close>

fun build_results ::
  "'v externals \<Rightarrow> 'v VectorStore \<Rightarrow> (string \<rightharpoonup> ChunkRow) \<Rightarrow> string option \<Rightarrow> VectorHit list \<Rightarrow>
   app_error + SearchResult list" where
  "build_results ext vs chunks_by_id file_filter [] = Inr []"
| "build_results ext vs chunks_by_id file_filter (search_result # rest) =
     (case get_chunk_id vs (hit_index search_result) of
        None \<Rightarrow> build_results ext vs chunks_by_id file_filter rest
      | Some chunk_id \<Rightarrow>
          if chunk_id = [] then build_results ext vs chunks_by_id file_filter rest
          else
            (case chunks_by_id chunk_id of
               None \<Rightarrow> build_results ext vs chunks_by_id file_filter rest
             | Some chunk \<Rightarrow>
                 if truthy file_filter \<and>
                    \<not> fnmatch ext (row_file_path chunk) (case file_filter of Some f \<Rightarrow> f | None \<Rightarrow> [])
                 then build_results ext vs chunks_by_id file_filter rest
                 else if hit_score search_result < 0 \<or> hit_score search_result > 1
                 then Inl ValidationError
                 else
                   (case build_results ext vs chunks_by_id file_filter rest of
                      Inl e \<Rightarrow> Inl e
                    | Inr results \<Rightarrow>
                        Inr (\<lparr>sr_file_path = row_file_path chunk,
                              sr_symbol = row_symbol_name chunk,
                              sr_symbol_type = row_symbol_type chunk,
                              sr_start_line = row_start_line chunk,
                              sr_end_line = row_end_line chunk,
                              sr_content = row_content chunk,
                              sr_score = hit_score search_result,
                              sr_language = row_language chunk\<rparr> # results))))"

text \<open>\<open>min_score or settings.similarity_threshold\<close>: a score of zero counts as absent.\<close>

definition effective_threshold :: "Settings \<Rightarrow> real option \<Rightarrow> real" where
  "effective_threshold settings min_score =
     (case min_score of
        None \<Rightarrow> similarity_threshold settings
      | Some m \<Rightarrow> if m = 0 then similarity_threshold settings else m)"

text \<open>The ids of the hits that have one, and the rows fetched for these ids.\<close>

definition hit_chunk_ids :: "'v VectorStore \<Rightarrow> VectorHit list \<Rightarrow> string list" where
  "hit_chunk_ids vs search_results =
     concat (map (\<lambda>r. case get_chunk_id vs (hit_index r) of
                         None \<Rightarrow> []
                       | Some chunk_id \<Rightarrow> if chunk_id = [] then [] else [chunk_id])
                 search_results)"

definition fetch_chunks :: "(string \<rightharpoonup> ChunkRow) \<Rightarrow> string list \<Rightarrow> (string \<rightharpoonup> ChunkRow)" where
  "fetch_chunks table chunk_ids = (\<lambda>chunk_id. if chunk_id \<in> set chunk_ids then table chunk_id else None)"

definition search_code ::
  "'v externals \<Rightarrow> Settings \<Rightarrow> World \<Rightarrow> string \<Rightarrow> string \<Rightarrow> nat \<Rightarrow> nat \<Rightarrow> real option \<Rightarrow>
   string option \<Rightarrow> app_error + (SearchResult list \<times> nat)" where
  "search_code ext settings w rid query limit offset min_score file_filter =
     (case check_api_readiness (repositories w) rid ''search'' of
        Inl e \<Rightarrow> Inl e
      | Inr repo \<Rightarrow>
          (let threshold = effective_threshold settings min_score;
               query_embedding = generate_embedding ext query
           in case load ext (new_vector_store rid) (disk w) of
                (False, vector_store) \<Rightarrow> Inr ([], 0)
              | (True, vector_store) \<Rightarrow>
                  (let search_results =
                         vector_search ext vector_store query_embedding (limit + offset + 50) threshold
                   in if search_results = [] then Inr ([], 0)
                      else
                        (let chunk_ids = hit_chunk_ids vector_store search_results;
                             chunks_by_id = fetch_chunks (code_chunks w) chunk_ids
                         in case build_results ext vector_store chunks_by_id file_filter search_results of
                              Inl e \<Rightarrow> Inl e
                            | Inr results \<Rightarrow>
                                Inr (take limit (drop offset results), length results)))))"

text \<open>
  The reference for the paging property, written from the description of the search and
  not from the steps of \<open>search_code\<close>. The store of a repository as \<open>load\<close> gives it;
  the vectors of the stored index whose score against the query is at least the
  threshold, each with its slot, in descending order of score (vectors of equal score
  in the order of their slots); the result that such a vector yields, if the chunk of
  its slot has a row and the path of the row passes the file filter.
\<close>

definition loaded_store :: "'v externals \<Rightarrow> World \<Rightarrow> string \<Rightarrow> 'v VectorStore option" where
  "loaded_store ext w rid =
     (case load ext (new_vector_store rid) (disk w) of
        (ok, vector_store) \<Rightarrow> if ok then Some vector_store else None)"

definition scored_slots :: "'v externals \<Rightarrow> 'v IndexFlatIP \<Rightarrow> string \<Rightarrow> VectorHit list" where
  "scored_slots ext ix query =
     map (\<lambda>i. \<lparr>hit_index = int i,
               hit_score = inner_product ext (normalize_L2 ext (generate_embedding ext query))
                             (index_vectors ix ! i)\<rparr>)
       [0..<ntotal ix]"

definition qualifying_hits ::
  "'v externals \<Rightarrow> Settings \<Rightarrow> World \<Rightarrow> string \<Rightarrow> string \<Rightarrow> real option \<Rightarrow> VectorHit list" where
  "qualifying_hits ext settings w rid query min_score =
     (case loaded_store ext w rid of
        None \<Rightarrow> []
      | Some vector_store \<Rightarrow>
          (case vs_index vector_store of
             None \<Rightarrow> []
           | Some ix \<Rightarrow>
               sort_key (\<lambda>h. - hit_score h)
                 (filter (\<lambda>h. hit_score h \<ge> effective_threshold settings min_score)
                    (scored_slots ext ix query))))"

definition qualifying_count ::
  "'v externals \<Rightarrow> Settings \<Rightarrow> World \<Rightarrow> string \<Rightarrow> string \<Rightarrow> real option \<Rightarrow> nat" where
  "qualifying_count ext settings w rid query min_score =
     length (qualifying_hits ext settings w rid query min_score)"

definition hit_result ::
  "'v externals \<Rightarrow> 'v VectorStore \<Rightarrow> (string \<rightharpoonup> ChunkRow) \<Rightarrow> string option \<Rightarrow> VectorHit \<Rightarrow>
   SearchResult option" where
  "hit_result ext vs table file_filter h =
     (case get_chunk_id vs (hit_index h) of
        None \<Rightarrow> None
      | Some chunk_id \<Rightarrow>
          if chunk_id = [] then None
          else
            (case table chunk_id of
               None \<Rightarrow> None
             | Some chunk \<Rightarrow>
                 if truthy file_filter \<and>
                    \<not> fnmatch ext (row_file_path chunk) (case file_filter of Some f \<Rightarrow> f | None \<Rightarrow> [])
                 then None
                 else Some \<lparr>sr_file_path = row_file_path chunk,
                            sr_symbol = row_symbol_name chunk,
                            sr_symbol_type = row_symbol_type chunk,
                            sr_start_line = row_start_line chunk,
                            sr_end_line = row_end_line chunk,
                            sr_content = row_content chunk,
                            sr_score = hit_score h,
                            sr_language = row_language chunk\<rparr>))"

text \<open>
  The results among the \<open>k\<close> best qualifying vectors, in their order. The call raises
  the error of the readiness check, or the validation error of the schema when one of
  these results has a score outside the range from 0 to 1. The full filtered result
  list is the one among all qualifying vectors.
\<close>

definition window_results ::
  "'v externals \<Rightarrow> Settings \<Rightarrow> World \<Rightarrow> string \<Rightarrow> string \<Rightarrow> real option \<Rightarrow> string option \<Rightarrow>
   nat \<Rightarrow> app_error + SearchResult list" where
  "window_results ext settings w rid query min_score file_filter k =
     (case check_api_readiness (repositories w) rid ''search'' of
        Inl e \<Rightarrow> Inl e
      | Inr repo \<Rightarrow>
          (case loaded_store ext w rid of
             None \<Rightarrow> Inr []
           | Some vector_store \<Rightarrow>
               (let results =
                      List.map_filter (hit_result ext vector_store (code_chunks w) file_filter)
                        (take k (qualifying_hits ext settings w rid query min_score))
                in if list_all (\<lambda>r. 0 \<le> sr_score r \<and> sr_score r \<le> 1) results then Inr results
                   else Inl ValidationError)))"

definition all_results ::
  "'v externals \<Rightarrow> Settings \<Rightarrow> World \<Rightarrow> string \<Rightarrow> string \<Rightarrow> real option \<Rightarrow> string option \<Rightarrow>
   app_error + SearchResult list" where
  "all_results ext settings w rid query min_score file_filter =
     window_results ext settings w rid query min_score file_filter
       (qualifying_count ext settings w rid query min_score)"




section \<open>Tutor (app/services/tutor.py)\<close>

record AskResponse =
  resp_session_id :: string
  resp_question :: string
  resp_answer :: string
  resp_references :: "CodeReference list"
  resp_confidence :: real
  resp_answered :: bool

text \<open>
  \<open>get_session\<close>: the session must exist and its last activity must not be older than
  the configured number of hours (times are in microseconds).
\<close>

definition get_session ::
  "Settings \<Rightarrow> (string \<rightharpoonup> TutorSession) \<Rightarrow> int \<Rightarrow> string \<Rightarrow> app_error + TutorSession" where
  "get_session settings sessions now sid =
     (case sessions sid of
        None \<Rightarrow> Inl (SessionNotFoundError sid)
      | Some session \<Rightarrow>
          if now - last_activity_at session > session_ttl_hours settings * 3600 * 1000000
          then Inl (SessionNotFoundError sid)
          else Inr session)"

text \<open>The Python slice \<open>xs[a:]\<close>, where a negative \<open>a\<close> counts from the end.\<close>

definition slice_from :: "int \<Rightarrow> 'a list \<Rightarrow> 'a list" where
  "slice_from a xs = (if a \<ge> 0 then drop (nat a) xs else drop (length xs - nat (- a)) xs)"

text \<open>
  \<open>get_recent_messages\<close>: the newest \<open>limit\<close> messages of the session, oldest first. The
  argument is the list of the messages the query can see, in the order of creation.
\<close>

definition get_recent_messages :: "TutorMessage list \<Rightarrow> string \<Rightarrow> nat \<Rightarrow> TutorMessage list" where
  "get_recent_messages visible sid limit =
     (let rows = filter (\<lambda>m. tm_session_id m = sid) visible
      in drop (length rows - limit) rows)"

fun str_join :: "string \<Rightarrow> string list \<Rightarrow> string" where
  "str_join sep [] = []"
| "str_join sep [x] = x"
| "str_join sep (x # xs) = x @ sep @ str_join sep xs"

text \<open>The decimal text of an integer, as an f-string prints it.\<close>

function str_nat :: "nat \<Rightarrow> string" where
  "str_nat n = (if n < 10 then [char_of (48 + n)] else str_nat (n div 10) @ [char_of (48 + n mod 10)])"
  by pat_completeness auto
termination
  by (relation "measure (\<lambda>n. n)") auto

declare str_nat.simps [simp del]

definition str_int :: "int \<Rightarrow> string" where
  "str_int i = (if i < 0 then CHR ''-'' # str_nat (nat (- i)) else str_nat (nat i))"

text \<open>\<open>value or default\<close> for an optional string.\<close>

definition or_else :: "string option \<Rightarrow> string \<Rightarrow> string" where
  "or_else v dflt = (case v of None \<Rightarrow> dflt | Some s \<Rightarrow> if s = [] then dflt else s)"

text \<open>
  The loop of \<open>update_rolling_summary\<close> that drops 100 characters from the front while
  the summary has more tokens than allowed. With a negative allowance the loop of the
  source does not end; the result is then \<open>None\<close>.
\<close>

partial_function (option) trim_summary :: "int \<Rightarrow> string \<Rightarrow> string option" where
  "trim_summary max_tokens summary =
     (if count_tokens summary > max_tokens then trim_summary max_tokens (drop 100 summary)
      else Some summary)"

declare trim_summary.simps [code]

definition summary_part :: "TutorMessage \<Rightarrow> string" where
  "summary_part msg =
     (if tm_role msg = ''user'' then ''Q: '' @ take 100 (tm_content msg)
      else ''A: '' @ take 100 (tm_content msg))"

text \<open>
  \<open>update_rolling_summary\<close> returns the session object after the call (\<open>None\<close> when the
  trimming loop does not end).
\<close>

definition update_rolling_summary ::
  "Settings \<Rightarrow> TutorMessage list \<Rightarrow> TutorSession \<Rightarrow> TutorSession option" where
  "update_rolling_summary settings visible session =
     (let messages = get_recent_messages visible (ts_id session) 10
      in if length messages < 4 then Some session
         else
           (case trim_summary (max_conversation_tokens settings)
                   (str_join '' | '' (map summary_part (slice_from (- 6) messages))) of
              None \<Rightarrow> None
            | Some summary \<Rightarrow> Some (session\<lparr>rolling_conversation_summary := Some summary\<rparr>)))"

definition NOT_FOUND_ANSWER :: string where
  "NOT_FOUND_ANSWER = ''This could not be found in the repository.''"

definition format_result :: "SearchResult \<Rightarrow> string" where
  "format_result r =
     ''File: '' @ sr_file_path r @ '' (lines '' @ str_int (sr_start_line r) @ ''-'' @
       str_int (sr_end_line r) @ '')\<newline>'' @
     ''Symbol: '' @ or_else (sr_symbol r) ''N/A'' @ ''\<newline>'' @
     ''```'' @ or_else (sr_language r) [] @ ''\<newline>'' @ sr_content r @ ''\<newline>```''"

definition fallback_reference :: "SearchResult \<Rightarrow> CodeReference" where
  "fallback_reference r =
     \<lparr>ref_file = sr_file_path r, ref_symbol = None,
      ref_lines = str_int (sr_start_line r) @ ''-'' @ str_int (sr_end_line r),
      ref_content = None\<rparr>"

definition payload_reference :: "ReferencePayload \<Rightarrow> CodeReference" where
  "payload_reference ref =
     \<lparr>ref_file = (case payload_file ref of None \<Rightarrow> [] | Some f \<Rightarrow> f),
      ref_symbol = payload_symbol ref,
      ref_lines = (case payload_lines ref of None \<Rightarrow> [] | Some l \<Rightarrow> l),
      ref_content = None\<rparr>"

text \<open>
  The part of \<open>ask_question\<close> after the check for an empty result list: the prompt is
  built, the completion service is called (the call is recorded in the world), its
  answer is parsed, the two messages are stored (the question is flushed before the
  summary is computed, the answer is not, and the session has no automatic flush), the
  summary is updated and all is committed. A summary that changes makes the row of the
  session change, which sets its time of last activity. The schema \<open>AskResponse\<close>
  accepts a confidence between 0 and 1 only.
\<close>

definition answer_with_context ::
  "'v externals \<Rightarrow> Settings \<Rightarrow> int \<Rightarrow> World \<Rightarrow> TutorSession \<Rightarrow> string \<Rightarrow> string \<Rightarrow>
   SearchResult list \<Rightarrow> ((app_error + AskResponse) \<times> World) option" where
  "answer_with_context ext settings now w session sid question results =
     (let code_context = str_join ''\<newline>\<newline>---\<newline>\<newline>'' (map format_result results);
          history = get_recent_messages (tutor_messages w) sid 10;
          user_message =
            ''Code Context:\<newline>'' @ code_context @ ''\<newline>\<newline>Question: '' @ question @
            ''\<newline>\<newline>Remember: Answer ONLY based on the code context above. Cite specific files and lines.'';
          messages =
            [\<lparr>msg_role = ''system'', msg_content = TUTOR_SYSTEM_PROMPT ext\<rparr>] @
            (if truthy (rolling_conversation_summary session)
             then [\<lparr>msg_role = ''system'',
                    msg_content = ''Previous conversation summary: '' @
                      or_else (rolling_conversation_summary session) []\<rparr>]
             else []) @
            map (\<lambda>m. \<lparr>msg_role = tm_role m, msg_content = tm_content m\<rparr>)
              (slice_from (- max_conversation_history settings) history) @
            [\<lparr>msg_role = ''user'', msg_content = user_message\<rparr>];
          response_text = generate_chat_completion ext messages;
          w1 = w\<lparr>completion_calls := completion_calls w @ [messages]\<rparr>
      in case json_loads ext response_text of
           NotAnObject \<Rightarrow> Some (Inl AttributeError, w1)
         | parsed \<Rightarrow>
             (let answer = (case parsed of
                              JsonObject p \<Rightarrow> (case payload_answer p of None \<Rightarrow> response_text | Some a \<Rightarrow> a)
                            | _ \<Rightarrow> response_text);
                  refs = (case parsed of
                            JsonObject p \<Rightarrow>
                              map payload_reference
                                (case payload_references p of None \<Rightarrow> [] | Some l \<Rightarrow> l)
                          | _ \<Rightarrow> map fallback_reference (take 3 results));
                  conf = (case parsed of
                            JsonObject p \<Rightarrow> (case payload_confidence p of None \<Rightarrow> 1 / 2 | Some c \<Rightarrow> c)
                          | _ \<Rightarrow> 1 / 2);
                  answd = (case parsed of
                             JsonObject p \<Rightarrow> (case payload_answered p of None \<Rightarrow> True | Some b \<Rightarrow> b)
                           | _ \<Rightarrow> True);
                  user_msg = \<lparr>tm_session_id = sid, tm_role = ''user'', tm_content = question,
                              tm_references = None\<rparr>;
                  assistant_msg = \<lparr>tm_session_id = sid, tm_role = ''assistant'', tm_content = answer,
                                   tm_references = Some (json_dumps_refs ext refs)\<rparr>
              in case update_rolling_summary settings (tutor_messages w1 @ [user_msg]) session of
                   None \<Rightarrow> None
                 | Some session1 \<Rightarrow>
                     (let session2 =
                            (if rolling_conversation_summary session1
                                  \<noteq> rolling_conversation_summary session
                             then session1\<lparr>last_activity_at := now\<rparr> else session1);
                          w2 = w1\<lparr>tutor_messages := tutor_messages w1 @ [user_msg, assistant_msg],
                                 tutor_sessions := (tutor_sessions w1)(ts_id session \<mapsto> session2)\<rparr>
                      in if conf < 0 \<or> conf > 1 then Some (Inl ValidationError, w2)
                         else Some (Inr \<lparr>resp_session_id = sid, resp_question = question,
                                         resp_answer = answer, resp_references = refs,
                                         resp_confidence = conf, resp_answered = answd\<rparr>, w2))))"

text \<open>
  \<open>ask_question\<close> returns its outcome and the world after the call; \<open>None\<close> stands for
  a call that does not return.
\<close>

definition ask_question ::
  "'v externals \<Rightarrow> Settings \<Rightarrow> int \<Rightarrow> World \<Rightarrow> string \<Rightarrow> string \<Rightarrow> string \<Rightarrow>
   ((app_error + AskResponse) \<times> World) option" where
  "ask_question ext settings now w rid sid question =
     (case get_session settings (tutor_sessions w) now sid of
        Inl e \<Rightarrow> Some (Inl e, w)
      | Inr session \<Rightarrow>
          if ts_repo_id session \<noteq> rid then Some (Inl (SessionNotFoundError sid), w)
          else
            (case search_code ext settings w rid question 5 0
                    (Some (similarity_threshold settings)) None of
               Inl e \<Rightarrow> Some (Inl e, w)
             | Inr (results, cnt) \<Rightarrow>
                 if results = [] then
                   Some (Inr \<lparr>resp_session_id = sid, resp_question = question,
                              resp_answer = NOT_FOUND_ANSWER, resp_references = [],
                              resp_confidence = 0, resp_answered = False\<rparr>, w)
                 else answer_with_context ext settings now w session sid question results))"

section \<open>Sample data\<close>

definition repo0 :: Repository where
  "repo0 = \<lparr>repo_id = ''r1'', repo_name = ''n'', repo_owner = ''o'', primary_language = None,
     status = CREATED, error_message = None, total_files = None, total_chunks = None\<rparr>"

definition job0 :: Job where
  "job0 = \<lparr>job_id = ''j1'', job_repo_id = ''r1'', job_status = RUNNING, progress = 40,
            job_error_message = None\<rparr>"

definition chunks_of :: "app_error + CodeChunk list \<Rightarrow> CodeChunk list" where
  "chunks_of r = (case r of Inl e \<Rightarrow> [] | Inr chunks \<Rightarrow> chunks)"

definition window_text :: string where
  "window_text = ''a b c\<newline>d e f\<newline>g\<newline>h i j k''"

definition python_text :: string where
  "python_text =
     ''import os\<newline>def f():\<newline>    return 1234567890123456789012345678901234567890''"

definition notes_text :: string where
  "notes_text = ''0123456789 0123456789 0123456789\<newline>0123456789 0123456789 0123456789''"

definition sample_fs :: "string \<rightharpoonup> string" where
  "sample_fs = [''/r/a.py'' \<mapsto> python_text, ''/r/notes.txt'' \<mapsto> notes_text]"

section \<open>Sample index, codec and world\<close>

text \<open>
  A concrete instance of the external capabilities, for evaluating the model: a vector
  is a truth value, the score of a stored vector is 1 or 0, an index file holds one byte
  for each vector of an index of the default dimension, an id map file holds one id on
  each line, and a file filter without wildcards matches the equal path.
\<close>

definition sample_write_index :: "bool IndexFlatIP \<Rightarrow> string" where
  "sample_write_index ix = map (\<lambda>v. if v then CHR ''1'' else CHR ''0'') (index_vectors ix)"

definition sample_read_index :: "string \<Rightarrow> bool IndexFlatIP option" where
  "sample_read_index bytes =
     Some \<lparr>index_dimension = EMBEDDING_DIM, index_vectors = map (\<lambda>c. c = CHR ''1'') bytes\<rparr>"

definition sample_ext :: "bool externals" where
  "sample_ext =
     \<lparr>generate_embedding = (\<lambda>query. True),
      normalize_L2 = (\<lambda>v. v),
      inner_product = (\<lambda>query v. if v then 1 else 0),
      write_index = sample_write_index,
      read_index = sample_read_index,
      json_dump_ids = join_lines,
      json_load_ids = (\<lambda>bytes. Some (split_lines bytes)),
      fnmatch = (\<lambda>path pattern. path = pattern),
      generate_chat_completion = (\<lambda>messages. ''not json''),
      json_loads = (\<lambda>response_text. JSONDecodeError),
      json_dumps_refs = (\<lambda>refs. ''[]''),
      TUTOR_SYSTEM_PROMPT = ''You are a code tutor.''\<rparr>"

text \<open>Sixty chunk ids of two characters each, and the row stored under an id.\<close>

definition sample_ids :: "string list" where
  "sample_ids = concat (map (\<lambda>a. map (\<lambda>b. [a, b]) ''0123456789'') ''abcdef'')"

definition chunk_row :: "string \<Rightarrow> ChunkRow" where
  "chunk_row chunk_id =
     \<lparr>row_id = chunk_id, row_repo_id = ''r1'', row_file_path = chunk_id,
      row_start_line = 1, row_end_line = 2, row_symbol_type = None, row_symbol_name = None,
      row_language = None, row_content = ''pass'', row_embedding_index = None\<rparr>"

text \<open>
  A store with the first \<open>n\<close> ids, each with a vector of score 1, and the world in which
  it has been saved and every id has its row.
\<close>

definition sample_store :: "nat \<Rightarrow> bool VectorStore" where
  "sample_store n =
     add_embeddings sample_ext (new_vector_store ''r1'')
       (map (\<lambda>chunk_id. True) (take n sample_ids)) (take n sample_ids)"

definition sample_world :: "nat \<Rightarrow> World" where
  "sample_world n =
     \<lparr>repositories = [''r1'' \<mapsto> repo0\<lparr>status := INDEXED\<rparr>],
      code_chunks = map_of (map (\<lambda>chunk_id. (chunk_id, chunk_row chunk_id)) (take n sample_ids)),
      tutor_sessions = Map.empty,
      tutor_messages = [],
      disk = save sample_ext (sample_store n) Map.empty,
      completion_calls = []\<rparr>"



text \<open>
  A session of the sample repository, and the world with that session and an index of
  three vectors that all have the given truth value (so all score 1, or all score 0).
\<close>

definition session0 :: TutorSession where
  "session0 = \<lparr>ts_id = ''s1'', ts_repo_id = ''r1'', repo_context_summary = None,
               rolling_conversation_summary = None, last_activity_at = 0\<rparr>"

definition tutor_store :: "bool \<Rightarrow> bool VectorStore" where
  "tutor_store v =
     add_embeddings sample_ext (new_vector_store ''r1'') [v, v, v] (take 3 sample_ids)"

definition tutor_world :: "bool \<Rightarrow> World" where
  "tutor_world v =
     (sample_world 3)\<lparr>tutor_sessions := [''s1'' \<mapsto> session0],
                      disk := save sample_ext (tutor_store v) Map.empty\<rparr>"


section \<open>Lifecycle properties\<close>

text \<open>
  Claim C1. For every repository and every target status: when the pair of the current and
  the target status is in the transition table, \<open>transition_status\<close> returns the
  repository with the target as its status; when it is not, the call raises the
  invalid-transition error (a \<open>ValueError\<close> naming both states) and the repository
  object, so its status and its error message, is unchanged.
\<close>

theorem transition_status_table:
  "(new_status \<in> set (VALID_TRANSITIONS (status repo)) \<longrightarrow>
      (\<exists>repo'. transition_status repo new_status msg = (Inr repo', repo') \<and>
          status repo' = new_status))
   \<and> (new_status \<notin> set (VALID_TRANSITIONS (status repo)) \<longrightarrow>
      transition_status repo new_status msg =
        (Inl (ValueError (''Invalid transition from '' @ status_value (status repo) @
                '' to '' @ status_value new_status)), repo))"
  by (simp add: transition_status_def can_transition_to_def Let_def)

theorem transition_status_table_witness:
  "CLONED \<in> set (VALID_TRANSITIONS (status repo0)) \<and>
   status (snd (transition_status repo0 CLONED None)) = CLONED \<and>
   READY \<notin> set (VALID_TRANSITIONS (status repo0)) \<and>
   transition_status repo0 READY None =
     (Inl (ValueError ''Invalid transition from CREATED to READY''), repo0)"
  using transition_status_table [of CLONED repo0 None] transition_status_table [of READY repo0 None]
  by (auto simp: repo0_def)

text \<open>
  Claim C7. The claim is that every transition, the retry re-entry from \<open>FAILED\<close> to
  \<open>CREATED\<close> included, keeps the error message empty unless the status is
  \<open>FAILED\<close>. Evaluated on the code: a repository that fails with a message and is then
  moved back to \<open>CREATED\<close> by \<open>transition_status\<close> keeps the message, so the
  invariant is broken; the reset branch of \<open>ingest_repository\<close> clears it.
\<close>

theorem transition_retry_keeps_message:
  "message_invariant repo0 \<and>
   status (run_transitions repo0 [(FAILED, Some ''boom''), (CREATED, None)]) = CREATED \<and>
   error_message (run_transitions repo0 [(FAILED, Some ''boom''), (CREATED, None)]) = Some ''boom'' \<and>
   \<not> message_invariant (run_transitions repo0 [(FAILED, Some ''boom''), (CREATED, None)]) \<and>
   message_invariant (ingest_reset_existing (run_transitions repo0 [(FAILED, Some ''boom'')]))"
  by (simp add: message_invariant_def repo0_def transition_status_def can_transition_to_def
      ingest_reset_existing_def Let_def)

text \<open>
  Claim C9. For an operation name that is not a key of \<open>API_STATE_REQUIREMENTS\<close>,
  \<open>check_api_readiness\<close> returns the stored repository whatever its status is,
  \<open>FAILED\<close> included.
\<close>

theorem check_api_readiness_unknown_operation:
  "API_STATE_REQUIREMENTS operation = None \<Longrightarrow> repos rid = Some repo \<Longrightarrow>
   check_api_readiness repos rid operation = Inr repo"
  by (simp add: check_api_readiness_def get_repository_def repo_check_api_readiness_def)

theorem check_api_readiness_unknown_operation_witness:
  "API_STATE_REQUIREMENTS ''delete'' = None \<and>
   status (repo0\<lparr>status := FAILED\<rparr>) = FAILED \<and>
   check_api_readiness [''r1'' \<mapsto> repo0\<lparr>status := FAILED\<rparr>] ''r1'' ''delete''
     = Inr (repo0\<lparr>status := FAILED\<rparr>)"
proof -
  have h: "API_STATE_REQUIREMENTS ''delete'' = None"
    by (simp add: API_STATE_REQUIREMENTS_def)
  show ?thesis
    using h check_api_readiness_unknown_operation [OF h,
        of "[''r1'' \<mapsto> repo0\<lparr>status := FAILED\<rparr>]" "''r1''" "repo0\<lparr>status := FAILED\<rparr>"]
    by simp
qed

section \<open>Job progress properties\<close>

text \<open>
  Claim C6, as stated, fails: after \<open>complete_job\<close> has stored the progress 100, a call
  of \<open>update_progress\<close> with 50 stores 50.
\<close>

theorem update_progress_regresses:
  "progress (complete_job job0) = 100 \<and> progress (update_progress (complete_job job0) 50) = 50"
  by (simp add: complete_job_def update_progress_def job0_def)

text \<open>
  Claim C6, amended. \<open>update_progress\<close> stores the given value clamped to the range from
  0 to 100, whatever was stored before; the stored progress does not decrease when the
  given value is at least the stored one (and the stored one is at most 100).
\<close>

theorem update_progress_clamps:
  "progress (update_progress job p) = min (max p 0) 100 \<and>
   0 \<le> progress (update_progress job p) \<and> progress (update_progress job p) \<le> 100 \<and>
   (progress job \<le> p \<and> progress job \<le> 100 \<longrightarrow> progress job \<le> progress (update_progress job p))"
  by (auto simp: update_progress_def)

theorem update_progress_clamps_witness:
  "progress (complete_job job0) \<le> 250 \<and> progress (complete_job job0) \<le> 100 \<and>
   progress (update_progress (complete_job job0) 250) = 100 \<and>
   progress (complete_job job0) \<le> progress (update_progress (complete_job job0) 250)"
  using update_progress_clamps [of "complete_job job0" 250]
  by (simp add: complete_job_def job0_def)

section \<open>Chunking properties\<close>

lemma overlap_loop_suffix:
  "overlap_loop ot xs acc cnt = (ov, c) \<Longrightarrow> \<exists>k\<le>length xs. ov = rev (take k xs) @ acc"
proof (induction xs arbitrary: acc cnt)
  case Nil
  then show ?case by simp
next
  case (Cons x xs)
  show ?case
  proof (cases "cnt + count_tokens x > ot")
    case True
    with Cons.prems have "ov = acc" by simp
    then have "ov = rev (take 0 (x # xs)) @ acc" by simp
    then show ?thesis by blast
  next
    case False
    with Cons.prems have "overlap_loop ot xs (x # acc) (cnt + count_tokens x) = (ov, c)"
      by (simp add: Let_def)
    from Cons.IH [OF this] obtain k where k: "k \<le> length xs" "ov = rev (take k xs) @ x # acc"
      by blast
    then have "ov = rev (take (Suc k) (x # xs)) @ acc" by simp
    moreover have "Suc k \<le> length (x # xs)" using k by simp
    ultimately show ?thesis by blast
  qed
qed

lemma take_overlap_suffix: "suffix (fst (take_overlap ot cur)) cur"
proof -
  obtain ov c where oc: "overlap_loop ot (rev cur) [] 0 = (ov, c)"
    by (cases "overlap_loop ot (rev cur) [] 0")
  from overlap_loop_suffix [OF oc] obtain k where "k \<le> length (rev cur)" "ov = rev (take k (rev cur)) @ []"
    by blast
  then have "ov = drop (length cur - k) cur"
    by (simp add: rev_take)
  then show ?thesis
    by (simp add: take_overlap_def oc suffix_drop)
qed

lemma chunk_range_lines_window:
  assumes "suffix cur pre" "first_line = i - int (length cur)" "i = int (length pre) + 1"
  shows "chunk_range_lines (pre @ rest) (window_chunk fp lang first_line (i - 1) cur toks) = cur"
proof -
  from assms(1) obtain p0 where p0: "pre = p0 @ cur" by (auto simp: suffix_def)
  have "nat (first_line - 1) = length p0" using assms p0 by simp
  moreover have "nat (i - 1 - first_line + 1) = length cur" using assms p0 by simp
  ultimately show ?thesis
    by (simp add: chunk_range_lines_def window_chunk_def p0)
qed


lemma upto_append_next: "a \<le> b + 1 \<Longrightarrow> b \<le> c \<Longrightarrow> [a..b] @ [b + 1..c] = [a..c]"
proof (cases "a \<le> b")
  case True
  assume "b \<le> c"
  with True show ?thesis using upto_split2 [of a b c] by simp
next
  case False
  assume "a \<le> b + 1"
  with False have "a = b + 1" by simp
  with False show ?thesis by simp
qed

lemma sliding_loop_inv:
  assumes "suffix cur pre" and "first_line = i - int (length cur)"
    and "i = int (length pre) + 1" and "n = int (length (pre @ rest))"
    and "cur \<noteq> [] \<or> rest \<noteq> []" and "pe + 1 \<le> i" and "cur \<noteq> [] \<longrightarrow> pe + 2 \<le> i"
    and "first_line \<le> pe + 1"
  shows "sliding_loop fp lang mt ot n i cur first_line toks rest \<noteq> [] \<and>
     start_line (hd (sliding_loop fp lang mt ot n i cur first_line toks rest)) = first_line \<and>
     concat (unique_spans pe (sliding_loop fp lang mt ot n i cur first_line toks rest)) = [pe + 1..n] \<and>
     continuity ot (pre @ rest) (sliding_loop fp lang mt ot n i cur first_line toks rest) \<and>
     (\<forall>c\<in>set (sliding_loop fp lang mt ot n i cur first_line toks rest).
        first_line \<le> start_line c \<and> start_line c \<le> end_line c \<and> end_line c \<le> n)"
  using assms
proof (induction rest arbitrary: pre cur first_line i toks pe)
  case Nil
  then have cur: "cur \<noteq> []" by simp
  have "int (length cur) \<le> int (length pre)"
    using Nil.prems(1) by (simp add: suffix_length_le)
  with Nil.prems cur have "first_line \<le> n" "n = i - 1" "0 < length cur"
    by auto
  with Nil.prems cur show ?case
    by (simp add: window_chunk_def max_absorb2)
next
  case (Cons line rest)
  let ?lt = "count_tokens line"
  have len: "int (length cur) \<le> int (length pre)"
    using Cons.prems(1) by (simp add: suffix_length_le)
  show ?case
  proof (cases "toks + ?lt > mt \<and> cur \<noteq> []")
    case True
    then have cur: "cur \<noteq> []" by simp
    obtain ov ovc where ov: "take_overlap ot cur = (ov, ovc)"
      by (cases "take_overlap ot cur")
    have sov: "suffix ov cur" using take_overlap_suffix [of ot cur] ov by simp
    let ?c = "window_chunk fp lang first_line (i - 1) cur toks"
    let ?cs = "sliding_loop fp lang mt ot n (i + 1) (ov @ [line]) (i - int (length ov)) (ovc + ?lt) rest"
    have unfold: "sliding_loop fp lang mt ot n i cur first_line toks (line # rest) = ?c # ?cs"
      using True ov by (simp add: Let_def)
    have lov: "int (length ov) \<le> int (length cur)"
      using sov by (simp add: suffix_length_le)
    have "suffix ov pre" using sov Cons.prems(1) by (rule suffix_order.trans)
    then have p1: "suffix (ov @ [line]) (pre @ [line])" by simp
    have p2: "i - int (length ov) = (i + 1) - int (length (ov @ [line]))" by simp
    have p3: "i + 1 = int (length (pre @ [line])) + 1" using Cons.prems(3) by simp
    have p4: "n = int (length ((pre @ [line]) @ rest))" using Cons.prems(4) by simp
    have p5: "ov @ [line] \<noteq> [] \<or> rest \<noteq> []" by simp
    have p6: "(i - 1) + 1 \<le> i + 1" by simp
    have p7: "ov @ [line] \<noteq> [] \<longrightarrow> (i - 1) + 2 \<le> i + 1" by simp
    have p8: "i - int (length ov) \<le> (i - 1) + 1" by simp
    note IH = Cons.IH [OF p1 p2 p3 p4 p5 p6 p7 p8, of "ovc + ?lt"]
    have c_start: "start_line ?c = first_line" and c_end: "end_line ?c = i - 1"
      by (simp_all add: window_chunk_def)
    have in_n: "i \<le> n" using Cons.prems(3,4) by simp
    have pei: "pe + 2 \<le> i" using Cons.prems(7) cur by simp
    have fl: "first_line \<le> i - 1" using Cons.prems(2) cur by (cases cur) simp_all
    have spans: "concat (unique_spans pe (?c # ?cs)) = [pe + 1..n]"
    proof -
      have "concat (unique_spans pe (?c # ?cs)) = [pe + 1..i - 1] @ concat (unique_spans (i - 1) ?cs)"
        using Cons.prems(8) by (simp add: c_start c_end max_absorb2)
      also have "\<dots> = [pe + 1..i - 1] @ [(i - 1) + 1..n]"
        using IH by simp
      also have "\<dots> = [pe + 1..n]"
        using pei in_n by (intro upto_append_next) simp_all
      finally show ?thesis .
    qed
    have range: "chunk_range_lines (pre @ line # rest) ?c = cur"
      using chunk_range_lines_window [OF Cons.prems(1,2,3)] by simp
    have cont: "continuity ot (pre @ line # rest) (?c # ?cs)"
    proof -
      from IH obtain c2 cs2 where cs2: "?cs = c2 # cs2" and "start_line c2 = i - int (length ov)"
        by (cases ?cs) auto
      moreover have "continuity ot (pre @ line # rest) ?cs" using IH by simp
      ultimately show ?thesis
        by (simp add: range ov c_end)
    qed
    have bounds: "\<forall>c\<in>set (?c # ?cs). first_line \<le> start_line c \<and> start_line c \<le> end_line c \<and> end_line c \<le> n"
    proof -
      have "first_line \<le> i - int (length ov)" using Cons.prems(2) lov by simp
      with IH have "\<forall>c\<in>set ?cs. first_line \<le> start_line c \<and> start_line c \<le> end_line c \<and> end_line c \<le> n"
        by fastforce
      with fl in_n show ?thesis by (simp add: c_start c_end)
    qed
    show ?thesis
      unfolding unfold using spans cont bounds c_start by simp
  next
    case False
    let ?cs = "sliding_loop fp lang mt ot n (i + 1) (cur @ [line]) first_line (toks + ?lt) rest"
    have unfold: "sliding_loop fp lang mt ot n i cur first_line toks (line # rest) = ?cs"
      using False by (auto simp: Let_def)
    have p1: "suffix (cur @ [line]) (pre @ [line])" using Cons.prems(1) by simp
    have p2: "first_line = (i + 1) - int (length (cur @ [line]))" using Cons.prems(2) by simp
    have p3: "i + 1 = int (length (pre @ [line])) + 1" using Cons.prems(3) by simp
    have p4: "n = int (length ((pre @ [line]) @ rest))" using Cons.prems(4) by simp
    have p5: "cur @ [line] \<noteq> [] \<or> rest \<noteq> []" by simp
    have p6: "pe + 1 \<le> i + 1" using Cons.prems(6) by simp
    have p7: "cur @ [line] \<noteq> [] \<longrightarrow> pe + 2 \<le> i + 1" using Cons.prems(6) by simp
    note IH = Cons.IH [OF p1 p2 p3 p4 p5 p6 p7 Cons.prems(8), of "toks + ?lt"]
    show ?thesis unfolding unfold using IH by simp
  qed
qed


lemma split_lines_nonempty: "split_lines s \<noteq> []"
  by (induction s) (auto split: list.splits)

lemma set_unique_spans_subset:
  "k \<in> set (concat (unique_spans pe cs)) \<Longrightarrow> \<exists>c\<in>set cs. start_line c \<le> k \<and> k \<le> end_line c"
  by (induction cs arbitrary: pe) auto

lemma sliding_window_chunk_inv:
  "continuity overlap_tokens (split_lines s)
     (sliding_window_chunk s fp lang max_tokens overlap_tokens) \<and>
   (\<Union>c\<in>set (sliding_window_chunk s fp lang max_tokens overlap_tokens).
      {start_line c..end_line c}) = {1..int (length (split_lines s))} \<and>
   concat (unique_spans 0 (sliding_window_chunk s fp lang max_tokens overlap_tokens))
     = [1..int (length (split_lines s))]"
proof -
  let ?lines = "split_lines s"
  let ?n = "int (length ?lines)"
  let ?cs = "sliding_loop fp lang max_tokens overlap_tokens ?n 1 [] 1 0 ?lines"
  have cs: "sliding_window_chunk s fp lang max_tokens overlap_tokens = ?cs"
    by (simp add: sliding_window_chunk_def Let_def split_lines_nonempty)
  have inv: "?cs \<noteq> [] \<and> start_line (hd ?cs) = 1 \<and>
     concat (unique_spans 0 ?cs) = [0 + 1..?n] \<and> continuity overlap_tokens ([] @ ?lines) ?cs \<and>
     (\<forall>c\<in>set ?cs. 1 \<le> start_line c \<and> start_line c \<le> end_line c \<and> end_line c \<le> ?n)"
    by (rule sliding_loop_inv) (simp_all add: split_lines_nonempty)
  have "(\<Union>c\<in>set ?cs. {start_line c..end_line c}) = {1..?n}"
  proof (intro equalityI subsetI)
    fix k assume "k \<in> (\<Union>c\<in>set ?cs. {start_line c..end_line c})"
    then obtain c where "c \<in> set ?cs" "start_line c \<le> k" "k \<le> end_line c" by auto
    with inv show "k \<in> {1..?n}" by fastforce
  next
    fix k assume "k \<in> {1..?n}"
    then have "k \<in> set (concat (unique_spans 0 ?cs))" using inv by simp
    from set_unique_spans_subset [OF this] show "k \<in> (\<Union>c\<in>set ?cs. {start_line c..end_line c})"
      by auto
  qed
  with inv show ?thesis unfolding cs by simp
qed

text \<open>
  Claim C4. For every input text, the chunks of the sliding-window strategy satisfy: each
  chunk after the first starts at the end line of the chunk before it, minus the number
  of overlap lines taken from that chunk, plus one; the line ranges of the chunks
  together are exactly the lines of the input; and the parts of the chunks that do not
  repeat lines of the chunk before, put one after the other, are the line numbers from 1
  to the last, each once.
\<close>

theorem sliding_window_total_coverage:
  "continuity overlap_tokens (split_lines s)
     (sliding_window_chunk s fp lang max_tokens overlap_tokens) \<and>
   (\<Union>c\<in>set (sliding_window_chunk s fp lang max_tokens overlap_tokens).
      {start_line c..end_line c}) = {1..int (length (split_lines s))} \<and>
   concat (unique_spans 0 (sliding_window_chunk s fp lang max_tokens overlap_tokens))
     = [1..int (length (split_lines s))]"
  by (rule sliding_window_chunk_inv)

theorem sliding_window_total_coverage_witness:
  "map start_line (sliding_window_chunk window_text ''f.txt'' None 6 3) = [1, 2, 3] \<and>
   map end_line (sliding_window_chunk window_text ''f.txt'' None 6 3) = [2, 3, 4] \<and>
   continuity 3 (split_lines window_text) (sliding_window_chunk window_text ''f.txt'' None 6 3) \<and>
   (\<Union>c\<in>set (sliding_window_chunk window_text ''f.txt'' None 6 3).
      {start_line c..end_line c}) = {1..4} \<and>
   concat (unique_spans 0 (sliding_window_chunk window_text ''f.txt'' None 6 3)) = [1..4]"
proof -
  have a: "map start_line (sliding_window_chunk window_text ''f.txt'' None 6 3) = [1, 2, 3]"
    by code_simp
  have b: "map end_line (sliding_window_chunk window_text ''f.txt'' None 6 3) = [2, 3, 4]"
    by code_simp
  have c: "int (length (split_lines window_text)) = 4"
    by code_simp
  show ?thesis
    using sliding_window_total_coverage [of 3 window_text "''f.txt''" None 6] a b c by simp
qed

text \<open>
  Claim C5, as stated, fails under the symbol-extraction strategy: for a Python file that
  starts with an import line, the Chunker produces a chunk (the file is not skipped) and
  no chunk covers line 1, which is not empty.
\<close>

theorem symbol_extraction_drops_lines:
  "chunks_of (chunk_file default_settings sample_fs ''/r/a.py'' ''/r'') \<noteq> [] \<and>
   map start_line (chunks_of (chunk_file default_settings sample_fs ''/r/a.py'' ''/r'')) = [2] \<and>
   hd (split_lines python_text) = ''import os'' \<and>
   \<not> line_covered (chunks_of (chunk_file default_settings sample_fs ''/r/a.py'' ''/r'')) 1"
  by code_simp

text \<open>
  Claim C5, amended. For every file that the Chunker does not skip entirely and whose
  chunks come from the sliding-window strategy (the language is not Python, or symbol
  extraction yields no chunk), the line ranges of the chunks together are exactly the
  lines of the file, so every input line is covered.
\<close>

theorem chunk_file_sliding_window_covers:
  assumes "chunk_file settings fs p base_path = Inr chunks" and "chunks \<noteq> []"
    and "read_file_safe settings fs p = Some s"
    and "relative_to p base_path = Inr relative_path"
    and "detect_language p = Some ''python'' \<longrightarrow> extract_python_symbols s relative_path = []"
  shows "(\<Union>c\<in>set chunks. {start_line c..end_line c}) = {1..int (length (split_lines s))}"
proof -
  have "chunks = sliding_window_chunk s relative_path (detect_language p) 1500 200"
    using assms by (auto simp: chunk_file_def Let_def split: if_splits)
  then show ?thesis
    using sliding_window_chunk_inv [of 200 s relative_path "detect_language p" 1500] by simp
qed

theorem chunk_file_sliding_window_covers_witness:
  "chunks_of (chunk_file default_settings sample_fs ''/r/notes.txt'' ''/r'') \<noteq> [] \<and>
   read_file_safe default_settings sample_fs ''/r/notes.txt'' = Some notes_text \<and>
   relative_to ''/r/notes.txt'' ''/r'' = Inr ''notes.txt'' \<and>
   detect_language ''/r/notes.txt'' = Some ''text'' \<and>
   (\<Union>c\<in>set (chunks_of (chunk_file default_settings sample_fs ''/r/notes.txt'' ''/r'')).
      {start_line c..end_line c}) = {1..2}"
proof -
  have a: "chunk_file default_settings sample_fs ''/r/notes.txt'' ''/r''
             = Inr (chunks_of (chunk_file default_settings sample_fs ''/r/notes.txt'' ''/r''))"
    by code_simp
  have b: "chunks_of (chunk_file default_settings sample_fs ''/r/notes.txt'' ''/r'') \<noteq> []"
    by code_simp
  have c: "read_file_safe default_settings sample_fs ''/r/notes.txt'' = Some notes_text"
    by code_simp
  have d: "relative_to ''/r/notes.txt'' ''/r'' = Inr ''notes.txt''"
    by code_simp
  have e: "detect_language ''/r/notes.txt'' = Some ''text''"
    by code_simp
  have f: "int (length (split_lines notes_text)) = 2"
    by code_simp
  have g: "detect_language ''/r/notes.txt'' = Some ''python'' \<longrightarrow>
             extract_python_symbols notes_text ''notes.txt'' = []"
    using e by simp
  show ?thesis
    using chunk_file_sliding_window_covers [OF a b c d g] b c d e f by simp
qed

section \<open>Vector store properties\<close>

lemma index_path_neq_map_path: "index_path r \<noteq> map_path r"
  by (simp add: index_path_def map_path_def)

lemma load_after_save:
  assumes "vs_index vs = Some ix"
    and "read_index ext (write_index ext ix) = Some ix"
    and "json_load_ids ext (json_dump_ids ext (id_map vs)) = Some (id_map vs)"
  shows "load ext (new_vector_store (vs_repo_id vs)) (save ext vs files)
           = (True, \<lparr>vs_repo_id = vs_repo_id vs, vs_dimension = EMBEDDING_DIM,
                     vs_index = Some ix, id_map = id_map vs\<rparr>)"
  using assms index_path_neq_map_path [of "vs_repo_id vs"]
  by (simp add: load_def save_def new_vector_store_def)

text \<open>
  Claim C8. For every store that holds an index, under the assumption that the index file
  format and the JSON codec of the libraries give back what was written (for this index
  and this id map): \<open>save\<close> followed by \<open>load\<close> on a fresh store of the same repository
  succeeds, and the loaded store answers every search (any query, \<open>top_k\<close> and threshold)
  with the same hits and gives the same chunk id for every slot.
\<close>

theorem save_load_round_trip:
  assumes "vs_index vs = Some ix"
    and "read_index ext (write_index ext ix) = Some ix"
    and "json_load_ids ext (json_dump_ids ext (id_map vs)) = Some (id_map vs)"
  shows "fst (load ext (new_vector_store (vs_repo_id vs)) (save ext vs files)) \<and>
    vector_search ext (snd (load ext (new_vector_store (vs_repo_id vs)) (save ext vs files)))
        query top_k threshold
      = vector_search ext vs query top_k threshold \<and>
    get_chunk_id (snd (load ext (new_vector_store (vs_repo_id vs)) (save ext vs files))) slot
      = get_chunk_id vs slot"
  using assms
  by (simp add: load_after_save [OF assms] vector_search_def get_chunk_id_def)

theorem save_load_round_trip_witness:
  "vs_index (sample_store 3)
     = Some \<lparr>index_dimension = EMBEDDING_DIM, index_vectors = [True, True, True]\<rparr> \<and>
   fst (load sample_ext (new_vector_store ''r1'') (save sample_ext (sample_store 3) Map.empty)) \<and>
   map hit_index
     (vector_search sample_ext
        (snd (load sample_ext (new_vector_store ''r1'') (save sample_ext (sample_store 3) Map.empty)))
        True 2 (1 / 2)) = [0, 1] \<and>
   get_chunk_id
     (snd (load sample_ext (new_vector_store ''r1'') (save sample_ext (sample_store 3) Map.empty))) 2
     = Some ''a2''"
proof -
  have a: "vs_index (sample_store 3)
             = Some \<lparr>index_dimension = EMBEDDING_DIM, index_vectors = [True, True, True]\<rparr>"
    by code_simp
  have b: "read_index sample_ext (write_index sample_ext
               \<lparr>index_dimension = EMBEDDING_DIM, index_vectors = [True, True, True]\<rparr>)
             = Some \<lparr>index_dimension = EMBEDDING_DIM, index_vectors = [True, True, True]\<rparr>"
    by code_simp
  have c: "json_load_ids sample_ext (json_dump_ids sample_ext (id_map (sample_store 3)))
             = Some (id_map (sample_store 3))"
    by code_simp
  have d: "vs_repo_id (sample_store 3) = ''r1''"
    by code_simp
  have e: "map hit_index (vector_search sample_ext (sample_store 3) True 2 (1 / 2)) = [0, 1]"
    by code_simp
  have f: "get_chunk_id (sample_store 3) 2 = Some ''a2''"
    by code_simp
  show ?thesis
    using save_load_round_trip [OF a b c, of Map.empty True 2 "1 / 2" 2] a e f
    unfolding d by simp
qed

section \<open>Search properties\<close>
















text \<open>
  The full filtered result list is what its name says: the qualifying vectors are
  exactly the slots of the stored index whose score reaches the threshold, each slot
  once, in descending order of score; the list holds the result of each of them that
  yields one, in that order, so its scores descend, each reaches the threshold, and each
  path passes the file filter.
\<close>

lemma hit_result_score:
  "hit_result ext vs table ff h = Some r \<Longrightarrow> sr_score r = hit_score h"
  by (auto simp: hit_result_def split: option.splits if_splits)

lemma hit_result_filter:
  "hit_result ext vs table (Some f) h = Some r \<Longrightarrow> f \<noteq> [] \<Longrightarrow> fnmatch ext (sr_file_path r) f"
  by (auto simp: hit_result_def split: option.splits if_splits)

lemma hit_result_row:
  "hit_result ext vs table ff h = Some r \<Longrightarrow>
     \<exists>chunk_id chunk. get_chunk_id vs (hit_index h) = Some chunk_id \<and> table chunk_id = Some chunk \<and>
       sr_file_path r = row_file_path chunk \<and> sr_content r = row_content chunk"
  by (auto simp: hit_result_def split: option.splits if_splits)

lemma qualifying_hits_sorted:
  "sorted_wrt (\<lambda>a b. hit_score a \<ge> hit_score b) (qualifying_hits ext settings w rid query min_score)"
proof -
  have "sorted_wrt (\<lambda>a b. hit_score a \<ge> hit_score b) (sort_key (\<lambda>h. - hit_score h) xs)" for xs :: "VectorHit list"
    using sorted_sort_key [of "\<lambda>h. - hit_score h" xs] by (simp add: sorted_map)
  then show ?thesis
    by (simp add: qualifying_hits_def split: option.splits)
qed

lemma qualifying_hits_set:
  assumes "loaded_store ext w rid = Some vs" and "vs_index vs = Some ix"
  shows "set (qualifying_hits ext settings w rid query min_score) =
           {h \<in> set (scored_slots ext ix query). hit_score h \<ge> effective_threshold settings min_score}"
  using assms by (auto simp: qualifying_hits_def)

lemma qualifying_hits_distinct:
  "distinct (map hit_index (qualifying_hits ext settings w rid query min_score))"
proof -
  have d: "distinct (map hit_index (scored_slots ext ix query))" for ix
    by (simp add: scored_slots_def comp_def distinct_map inj_on_def)
  have "distinct (map hit_index (sort_key f (filter P (scored_slots ext ix query))))"
    for ix and f :: "VectorHit \<Rightarrow> real" and P
    using d [of ix] by (auto simp: distinct_map intro: inj_on_subset)
  then show ?thesis
    by (simp add: qualifying_hits_def split: option.splits)
qed

lemma all_results_list:
  assumes "all_results ext settings w rid query min_score ff = Inr rs"
    and "loaded_store ext w rid = Some vs"
  shows "rs = List.map_filter (hit_result ext vs (code_chunks w) ff)
                (qualifying_hits ext settings w rid query min_score)"
  using assms
  by (auto simp: all_results_def window_results_def qualifying_count_def Let_def
           split: sum.splits if_splits)

lemma all_results_unloaded:
  assumes "all_results ext settings w rid query min_score ff = Inr rs"
    and "loaded_store ext w rid = None"
  shows "rs = []"
  using assms
  by (auto simp: all_results_def window_results_def split: sum.splits)

lemma set_map_filter_iff:
  "y \<in> set (List.map_filter f xs) \<longleftrightarrow> (\<exists>x\<in>set xs. f x = Some y)"
  by (induction xs) (auto simp: List.map_filter_simps split: option.splits)

lemma sorted_wrt_map_filter:
  assumes "sorted_wrt R hs" and "\<And>a b x y. R a b \<Longrightarrow> f a = Some x \<Longrightarrow> f b = Some y \<Longrightarrow> Q x y"
  shows "sorted_wrt Q (List.map_filter f hs)"
  using assms
proof (induction hs)
  case Nil
  then show ?case by simp
next
  case (Cons h hs)
  from Cons.prems(1) have srt: "sorted_wrt R hs" and hd: "\<forall>x\<in>set hs. R h x" by simp_all
  have IH: "sorted_wrt Q (List.map_filter f hs)"
    by (rule Cons.IH [OF srt Cons.prems(2)])
  show ?case
  proof (cases "f h")
    case None
    with IH show ?thesis by (simp add: List.map_filter_simps)
  next
    case (Some x)
    have "\<forall>y\<in>set (List.map_filter f hs). Q x y"
    proof
      fix y assume "y \<in> set (List.map_filter f hs)"
      then obtain b where b: "b \<in> set hs" "f b = Some y"
        by (auto simp: set_map_filter_iff)
      with hd have "R h b" by blast
      from Cons.prems(2) [OF this Some b(2)] show "Q x y" .
    qed
    with IH Some show ?thesis by (simp add: List.map_filter_simps)
  qed
qed

lemma all_results_sorted:
  assumes "all_results ext settings w rid query min_score ff = Inr rs"
  shows "sorted_wrt (\<lambda>a b. sr_score a \<ge> sr_score b) rs"
proof (cases "loaded_store ext w rid")
  case None
  from all_results_unloaded [OF assms None] show ?thesis by simp
next
  case (Some vs)
  show ?thesis
    unfolding all_results_list [OF assms Some]
    by (rule sorted_wrt_map_filter [OF qualifying_hits_sorted]) (simp add: hit_result_score)
qed

lemma all_results_qualify:
  assumes "all_results ext settings w rid query min_score ff = Inr rs" and "r \<in> set rs"
  shows "sr_score r \<ge> effective_threshold settings min_score
         \<and> (\<forall>f. ff = Some f \<and> f \<noteq> [] \<longrightarrow> fnmatch ext (sr_file_path r) f)"
proof (cases "loaded_store ext w rid")
  case None
  from all_results_unloaded [OF assms(1) None] assms(2) show ?thesis by simp
next
  case (Some vs)
  from assms(2) obtain h where h: "h \<in> set (qualifying_hits ext settings w rid query min_score)"
    and r: "hit_result ext vs (code_chunks w) ff h = Some r"
    unfolding all_results_list [OF assms(1) Some] by (auto simp: set_map_filter_iff)
  from h Some have "hit_score h \<ge> effective_threshold settings min_score"
    by (auto simp: qualifying_hits_def split: option.splits)
  with r show ?thesis
    by (auto simp: hit_result_score dest: hit_result_filter)
qed




section \<open>Tutor properties\<close>

text \<open>
  When the session is found, belongs to the repository and the search for the question
  returns no results, \<open>ask_question\<close> returns the fixed response and the world is the
  one it was called in.
\<close>

lemma ask_question_gate:
  assumes "get_session settings (tutor_sessions w) now sid = Inr session"
    and "ts_repo_id session = rid"
    and "search_code ext settings w rid question 5 0 (Some (similarity_threshold settings)) None
           = Inr ([], cnt)"
  shows "ask_question ext settings now w rid sid question =
           Some (Inr \<lparr>resp_session_id = sid, resp_question = question,
                      resp_answer = NOT_FOUND_ANSWER, resp_references = [],
                      resp_confidence = 0, resp_answered = False\<rparr>, w)"
  using assms by (simp add: ask_question_def)

text \<open>
  Claim C2. For every question whose search (five results at most, scores of at least
  the similarity threshold) returns no results, \<open>ask_question\<close> returns a response
  with \<open>answered\<close> false, confidence 0, no references and the answer
  ``This could not be found in the repository.'', and the completion service is not
  called: the record of its calls is the one before the call. The session is one that
  \<open>get_session\<close> returns and that belongs to the repository.
\<close>

theorem ask_question_no_results:
  assumes "get_session settings (tutor_sessions w) now sid = Inr session"
    and "ts_repo_id session = rid"
    and "search_code ext settings w rid question 5 0 (Some (similarity_threshold settings)) None
           = Inr ([], cnt)"
  shows "\<exists>w'. ask_question ext settings now w rid sid question =
           Some (Inr \<lparr>resp_session_id = sid, resp_question = question,
                      resp_answer = ''This could not be found in the repository.'',
                      resp_references = [], resp_confidence = 0, resp_answered = False\<rparr>, w')
         \<and> completion_calls w' = completion_calls w"
  using ask_question_gate [OF assms] by (simp add: NOT_FOUND_ANSWER_def)

text \<open>
  The sample world where the three indexed vectors all score 0, below the threshold of
  0.65: the search returns no results and the fixed response comes back.
\<close>

theorem ask_question_no_results_witness:
  "get_session default_settings (tutor_sessions (tutor_world False)) 5 ''s1'' = Inr session0 \<and>
   ts_repo_id session0 = ''r1'' \<and>
   search_code sample_ext default_settings (tutor_world False) ''r1'' ''what is f?'' 5 0
     (Some (similarity_threshold default_settings)) None = Inr ([], 0) \<and>
   (\<exists>w'. ask_question sample_ext default_settings 5 (tutor_world False) ''r1'' ''s1'' ''what is f?'' =
           Some (Inr \<lparr>resp_session_id = ''s1'', resp_question = ''what is f?'',
                      resp_answer = ''This could not be found in the repository.'',
                      resp_references = [], resp_confidence = 0, resp_answered = False\<rparr>, w')
         \<and> completion_calls w' = completion_calls (tutor_world False))"
proof -
  have a: "get_session default_settings (tutor_sessions (tutor_world False)) 5 ''s1'' = Inr session0"
    by code_simp
  have b: "ts_repo_id session0 = ''r1''"
    by code_simp
  have c: "search_code sample_ext default_settings (tutor_world False) ''r1'' ''what is f?'' 5 0
     (Some (similarity_threshold default_settings)) None = Inr ([], 0)"
    by code_simp
  show ?thesis
    using ask_question_no_results [OF a b c] a b c by blast
qed

text \<open>
  Claim C10. When the search of \<open>ask_question\<close> returns no results, the call returns,
  no message is stored (the stored messages are those before the call, so the question
  is not among the history of the session) and the sessions are unchanged, the rolling
  summary of the session among them.
\<close>

theorem ask_question_no_results_frame:
  assumes "get_session settings (tutor_sessions w) now sid = Inr session"
    and "ts_repo_id session = rid"
    and "search_code ext settings w rid question 5 0 (Some (similarity_threshold settings)) None
           = Inr ([], cnt)"
  shows "\<exists>r w'. ask_question ext settings now w rid sid question = Some (r, w')
         \<and> tutor_messages w' = tutor_messages w
         \<and> tutor_sessions w' = tutor_sessions w
         \<and> map_option rolling_conversation_summary (tutor_sessions w' sid)
             = Some (rolling_conversation_summary session)"
proof -
  have "tutor_sessions w sid = Some session"
    using assms(1) by (auto simp: get_session_def split: option.splits if_splits)
  then show ?thesis
    using ask_question_gate [OF assms] by simp
qed

text \<open>
  The same sample world at a later time and with another question.
\<close>

theorem ask_question_no_results_frame_witness:
  "get_session default_settings (tutor_sessions (tutor_world False)) 7 ''s1'' = Inr session0 \<and>
   ts_repo_id session0 = ''r1'' \<and>
   search_code sample_ext default_settings (tutor_world False) ''r1'' ''where is g?'' 5 0
     (Some (similarity_threshold default_settings)) None = Inr ([], 0) \<and>
   (\<exists>r w'. ask_question sample_ext default_settings 7 (tutor_world False) ''r1'' ''s1'' ''where is g?''
             = Some (r, w')
         \<and> tutor_messages w' = tutor_messages (tutor_world False)
         \<and> tutor_sessions w' = tutor_sessions (tutor_world False)
         \<and> map_option rolling_conversation_summary (tutor_sessions w' ''s1'')
             = Some (rolling_conversation_summary session0))"
proof -
  have a: "get_session default_settings (tutor_sessions (tutor_world False)) 7 ''s1'' = Inr session0"
    by code_simp
  have b: "ts_repo_id session0 = ''r1''"
    by code_simp
  have c: "search_code sample_ext default_settings (tutor_world False) ''r1'' ''where is g?'' 5 0
     (Some (similarity_threshold default_settings)) None = Inr ([], 0)"
    by code_simp
  show ?thesis
    using ask_question_no_results_frame [OF a b c] a b c by blast
qed

text \<open>
  For comparison, the sample world where the three vectors all score 1: the completion
  service is called once and the question and the answer are stored.
\<close>

lemma ask_question_with_results_writes:
  "map_option (\<lambda>(r, w'). (length (tutor_messages w'), length (completion_calls w')))
     (ask_question sample_ext default_settings 5 (tutor_world True) ''r1'' ''s1'' ''what is f?'')
   = Some (2, 1)"
  by code_simp

end
